theory Spec2Isabelle
  imports Main "HOL-Library.Word" "HOL-Library.Multiset"
begin

section \<open>Calendar times\<close>

text \<open>
  The service and the storage layer handle dates as Go \<^verbatim>\<open>time.Time\<close> values and use
  three operations on them: \<^verbatim>\<open>Before\<close>, \<^verbatim>\<open>After\<close> (comparison of instants) and
  \<^verbatim>\<open>Date\<close> (the calendar year, month and day).  A time is modelled by its calendar
  fields in UTC, the location \<^verbatim>\<open>time.Parse\<close> gives to a layout without a zone:
  year, month, day of the month and the nanoseconds elapsed since midnight.  For such
  values the order of instants is the lexicographic order of the fields.  The times
  that the database returns are read in UTC as well.
\<close>

datatype Month =
  January | February | March | April | May | June
  | July | August | September | October | November | December

text \<open>\<^verbatim>\<open>int(m)\<close> for a \<^verbatim>\<open>time.Month\<close>: January is 1.\<close>

fun Month_int :: "Month \<Rightarrow> int" where
  "Month_int January = 1"
| "Month_int February = 2"
| "Month_int March = 3"
| "Month_int April = 4"
| "Month_int May = 5"
| "Month_int June = 6"
| "Month_int July = 7"
| "Month_int August = 8"
| "Month_int September = 9"
| "Month_int October = 10"
| "Month_int November = 11"
| "Month_int December = 12"

text \<open>\<^verbatim>\<open>Month(n)\<close> for a number from 1 to 12 (the parser passes no other).\<close>

definition Month_of :: "nat \<Rightarrow> Month" where
  "Month_of n =
     (if n = 1 then January else if n = 2 then February else if n = 3 then March
      else if n = 4 then April else if n = 5 then May else if n = 6 then June
      else if n = 7 then July else if n = 8 then August else if n = 9 then September
      else if n = 10 then October else if n = 11 then November else December)"

record Time =
  year :: int
  month :: Month
  day :: nat
  nsec :: nat

definition Before :: "Time \<Rightarrow> Time \<Rightarrow> bool" where
  "Before t u \<longleftrightarrow>
     year t < year u \<or>
     (year t = year u \<and>
       (Month_int (month t) < Month_int (month u) \<or>
        (month t = month u \<and>
          (day t < day u \<or> (day t = day u \<and> nsec t < nsec u)))))"

definition After :: "Time \<Rightarrow> Time \<Rightarrow> bool" where
  "After t u \<longleftrightarrow> Before u t"

definition Date :: "Time \<Rightarrow> int \<times> Month \<times> nat" where
  "Date t = (year t, month t, day t)"

section \<open>Parsing a month: \<^verbatim>\<open>time.Parse("01-2006", value)\<close>\<close>

text \<open>
  The layout \<^verbatim>\<open>01-2006\<close> has three chunks: the zero-padded month, the literal
  \<^verbatim>\<open>-\<close>, and the four-digit year.  The definitions follow the steps the
  standard library takes for them: \<^verbatim>\<open>getnum\<close> with \<^verbatim>\<open>fixed\<close> set reads two
  digits, the month is checked to lie in 1..12, \<^verbatim>\<open>skip\<close> consumes the literal, the
  year is the \<^verbatim>\<open>atoi\<close> of the next four bytes, of which the first must be a digit,
  and text left over is an error.  The day defaults to 1, which every month has, and the
  clock to 00:00:00.  \<open>None\<close> stands for a returned error.
\<close>

definition isDigit :: "string \<Rightarrow> nat \<Rightarrow> bool" where
  "isDigit s i \<longleftrightarrow>
     i < length s \<and> (48::int) \<le> of_char (s ! i) \<and> (of_char (s ! i) :: int) \<le> 57"

definition getnum :: "string \<Rightarrow> bool \<Rightarrow> (int \<times> string) option" where
  "getnum s fixed =
     (if \<not> isDigit s 0 then None
      else if \<not> isDigit s 1 then
        (if fixed then None else Some (of_char (s ! 0) - 48, drop 1 s))
      else Some ((of_char (s ! 0) - 48) * 10 + (of_char (s ! 1) - 48), drop 2 s))"

text \<open>\<^verbatim>\<open>skip\<close> for a prefix without blanks, as the literal of this layout is.\<close>

fun skip :: "string \<Rightarrow> string \<Rightarrow> string option" where
  "skip val [] = Some val"
| "skip [] (p # ps) = None"
| "skip (v # vs) (p # ps) = (if v \<noteq> p then None else skip vs ps)"

text \<open>
  \<^verbatim>\<open>leadingInt\<close> reads the leading decimal digits and returns their value with the rest
  of the string; it fails when the value would pass \<open>2 ^ 63\<close>.
\<close>

fun leadingInt :: "string \<Rightarrow> int \<Rightarrow> (int \<times> string) option" where
  "leadingInt [] x = Some (x, [])"
| "leadingInt (c # s) x =
     (if (of_char c :: int) < 48 \<or> 57 < (of_char c :: int) then Some (x, c # s)
      else if 2 ^ 63 div 10 < x then None
      else if 2 ^ 63 < x * 10 + (of_char c - 48) then None
      else leadingInt s (x * 10 + (of_char c - 48)))"

definition atoi :: "string \<Rightarrow> int option" where
  "atoi s =
     (let neg = (s \<noteq> [] \<and> hd s = CHR ''-'');
          s1 = (if s \<noteq> [] \<and> (hd s = CHR ''-'' \<or> hd s = CHR ''+'') then tl s else s)
      in case leadingInt s1 0 of
           None \<Rightarrow> None
         | Some (q, rem) \<Rightarrow>
             if rem \<noteq> [] then None else Some (if neg then - q else q))"

definition Parse_01_2006 :: "string \<Rightarrow> Time option" where
  "Parse_01_2006 val =
     (case getnum val True of
        None \<Rightarrow> None
      | Some (mon, val1) \<Rightarrow>
          if mon \<le> 0 \<or> 12 < mon then None
          else
            (case skip val1 ''-'' of
               None \<Rightarrow> None
             | Some val2 \<Rightarrow>
                 if length val2 < 4 \<or> \<not> isDigit val2 0 then None
                 else
                   (case atoi (take 4 val2) of
                      None \<Rightarrow> None
                    | Some y \<Rightarrow>
                        if drop 4 val2 \<noteq> [] then None
                        else Some \<lparr>year = y, month = Month_of (nat mon), day = 1, nsec = 0\<rparr>)))"

section \<open>Trimming white space: \<^verbatim>\<open>strings.TrimSpace\<close>\<close>

text \<open>
  A Go string is a sequence of bytes, read as UTF-8.  \<^verbatim>\<open>TrimSpace\<close> removes from both
  ends every code point that \<^verbatim>\<open>unicode.IsSpace\<close> accepts: the six ASCII characters
  tab, line feed, vertical tab, form feed, carriage return and blank, and U+0085, U+00A0,
  U+1680, U+2000 to U+200A, U+2028, U+2029, U+202F, U+205F and U+3000, each of which has
  one valid encoding, of two or three bytes.  A byte sequence that is not valid UTF-8
  decodes to U+FFFD, which is no white space, so trimming stops there.
\<close>

definition asciiSpace :: "char \<Rightarrow> bool" where
  "asciiSpace c \<longleftrightarrow>
     c \<in> set [CHR 0x09, CHR 0x0A, CHR 0x0B, CHR 0x0C, CHR 0x0D, CHR 0x20]"

definition wideSpaces :: "string list" where
  "wideSpaces =
     [[CHR 0xC2, CHR 0x85], [CHR 0xC2, CHR 0xA0], [CHR 0xE1, CHR 0x9A, CHR 0x80],
      [CHR 0xE2, CHR 0x80, CHR 0x80], [CHR 0xE2, CHR 0x80, CHR 0x81],
      [CHR 0xE2, CHR 0x80, CHR 0x82], [CHR 0xE2, CHR 0x80, CHR 0x83],
      [CHR 0xE2, CHR 0x80, CHR 0x84], [CHR 0xE2, CHR 0x80, CHR 0x85],
      [CHR 0xE2, CHR 0x80, CHR 0x86], [CHR 0xE2, CHR 0x80, CHR 0x87],
      [CHR 0xE2, CHR 0x80, CHR 0x88], [CHR 0xE2, CHR 0x80, CHR 0x89],
      [CHR 0xE2, CHR 0x80, CHR 0x8A], [CHR 0xE2, CHR 0x80, CHR 0xA8],
      [CHR 0xE2, CHR 0x80, CHR 0xA9], [CHR 0xE2, CHR 0x80, CHR 0xAF],
      [CHR 0xE2, CHR 0x81, CHR 0x9F], [CHR 0xE3, CHR 0x80, CHR 0x80]]"

text \<open>The width in bytes of the white space code point a string starts with, 0 if none.\<close>

definition leadingSpace :: "string \<Rightarrow> nat" where
  "leadingSpace s =
     (case s of
        [] \<Rightarrow> 0
      | c # cs \<Rightarrow>
          if asciiSpace c then 1
          else (case find (\<lambda>e. take (length e) s = e) wideSpaces of
                  None \<Rightarrow> 0
                | Some e \<Rightarrow> length e))"

text \<open>The same for the code point a string ends with.\<close>

definition trailingSpace :: "string \<Rightarrow> nat" where
  "trailingSpace s =
     (if s = [] then 0
      else if asciiSpace (last s) then 1
      else (case find (\<lambda>e. length e \<le> length s \<and> drop (length s - length e) s = e)
                   wideSpaces of
              None \<Rightarrow> 0
            | Some e \<Rightarrow> length e))"

function TrimLeft :: "string \<Rightarrow> string" where
  "TrimLeft s = (if leadingSpace s = 0 then s else TrimLeft (drop (leadingSpace s) s))"
  by pat_completeness auto
termination
  by (relation "measure length") (auto simp: leadingSpace_def split: list.splits)

function TrimRight :: "string \<Rightarrow> string" where
  "TrimRight s =
     (if trailingSpace s = 0 then s else TrimRight (take (length s - trailingSpace s) s))"
  by pat_completeness auto
termination
  by (relation "measure length") (auto simp: trailingSpace_def split: if_splits)

definition TrimSpace :: "string \<Rightarrow> string" where
  "TrimSpace s = TrimRight (TrimLeft s)"

section \<open>Models and requests\<close>

text \<open>
  Go's \<^verbatim>\<open>int\<close> is a 64-bit two's complement integer on the platforms the service is
  built for: arithmetic on prices and totals wraps around, and \<open>sint\<close> reads the
  signed value.  Identifiers (\<^verbatim>\<open>int64\<close>) are only compared, never computed with, and
  are modelled as integers.
\<close>

type_synonym go_int = "64 word"

text \<open>\<^verbatim>\<open>models.Subscription\<close>; the optional end date is a pointer that may be nil.\<close>

record Subscription =
  ID :: int
  ServiceName :: string
  Price :: go_int
  UserID :: string
  StartDate :: Time
  EndDate :: "Time option"

text \<open>\<^verbatim>\<open>models.SumSubscription\<close>, the filter handed to the repository.\<close>

record SumSubscription =
  sum_UserID :: string
  sum_ServiceName :: string
  From :: Time
  To :: Time

text \<open>\<^verbatim>\<open>service.CreateSubscription\<close>, the raw input of Create and Update.\<close>

record CreateSubscription =
  in_ServiceName :: string
  in_Price :: go_int
  in_UserID :: string
  in_StartDate :: string
  in_EndDate :: "string option"

text \<open>\<^verbatim>\<open>service.FilterForSumSubscription\<close>, the raw input of Sum.\<close>

record FilterForSumSubscription =
  flt_UserID :: string
  flt_ServiceName :: string
  flt_From :: string
  flt_To :: string

section \<open>Errors\<close>

text \<open>
  An error of the repository is \<^verbatim>\<open>sql.ErrNoRows\<close>, an error of the driver, or either
  of them wrapped by \<^verbatim>\<open>fmt.Errorf("...: %w", err)\<close>.  \<^verbatim>\<open>errors.Is\<close> looks through
  the wrapping.
\<close>

datatype repo_error = ErrNoRows | DriverError string | Wrapped string repo_error

fun errors_Is_ErrNoRows :: "repo_error \<Rightarrow> bool" where
  "errors_Is_ErrNoRows ErrNoRows = True"
| "errors_Is_ErrNoRows (DriverError msg) = False"
| "errors_Is_ErrNoRows (Wrapped msg err) = errors_Is_ErrNoRows err"

text \<open>
  The errors of the service: its own sentinel values, and an error of the repository
  passed on unchanged.
\<close>

datatype error =
  ErrInvalidID | ErrInvalidServiceName | ErrInvalidPrice | ErrInvalidUserID
  | ErrInvalidStartDate | ErrInvalidEndDate | ErrSubscriptionNotFound
  | RepoError repo_error

section \<open>The repository\<close>

text \<open>
  \<^verbatim>\<open>SubscriptionRepository\<close> is an interface; the service knows nothing of its
  implementation.  A repository over a state \<open>'s\<close> is a record of its six methods, each
  of which takes the state and returns its result with the new state.  A method that
  returns only an error returns \<open>None\<close> for nil.  \<^verbatim>\<open>Get\<close> returns a pointer, which
  may be nil.
\<close>

record 's SubscriptionRepository =
  repo_Create :: "Subscription \<Rightarrow> 's \<Rightarrow> (repo_error + int) \<times> 's"
  repo_Get :: "int \<Rightarrow> 's \<Rightarrow> (repo_error + Subscription option) \<times> 's"
  repo_Update :: "Subscription \<Rightarrow> 's \<Rightarrow> repo_error option \<times> 's"
  repo_Delete :: "int \<Rightarrow> 's \<Rightarrow> repo_error option \<times> 's"
  repo_List :: "string \<Rightarrow> 's \<Rightarrow> (repo_error + Subscription list) \<times> 's"
  repo_Sum :: "SumSubscription \<Rightarrow> 's \<Rightarrow> (repo_error + go_int) \<times> 's"

section \<open>The service\<close>

text \<open>
  Every method validates its input in the order of the source and returns at the first
  check that fails; only then does it call the repository.  \<^verbatim>\<open>uuid.Parse\<close> belongs
  to a library that is not part of the repository; the service uses nothing of it but
  whether it returns an error, so it is a parameter \<open>uuid_Parse\<close>, true where the
  library accepts the string.
\<close>

text \<open>
  The block that reads the optional end date, the same in Create and Update: a nil or
  empty end date stays nil, any other must parse and must not lie before the start.
\<close>

definition parseEndDate :: "string option \<Rightarrow> Time \<Rightarrow> error + Time option" where
  "parseEndDate raw start =
     (case raw of
        None \<Rightarrow> Inr None
      | Some e \<Rightarrow>
          if e = [] then Inr None
          else
            (case Parse_01_2006 e of
               None \<Rightarrow> Inl ErrInvalidEndDate
             | Some endParse \<Rightarrow>
                 if Before endParse start then Inl ErrInvalidEndDate
                 else Inr (Some endParse)))"

text \<open>
  The calls of the repository that end Create, Update and Sum, once the model to send
  has been assembled: Create puts the identifier the repository returns into the model
  it returns; Update reports \<^verbatim>\<open>sql.ErrNoRows\<close> as
  \<^verbatim>\<open>ErrSubscriptionNotFound\<close>; every other error of the repository is passed on.
  The repository under \<^verbatim>\<open>src/\<close> writes nothing to the model it is given but the
  identifier that Create overwrites with the same value.
\<close>

definition Create_call ::
  "'s SubscriptionRepository \<Rightarrow> Subscription \<Rightarrow> 's \<Rightarrow> (error + Subscription) \<times> 's" where
  "Create_call repo sub s =
     (case repo_Create repo sub s of
        (Inl err, s') \<Rightarrow> (Inl (RepoError err), s')
      | (Inr new_id, s') \<Rightarrow> (Inr (sub\<lparr>ID := new_id\<rparr>), s'))"

definition Update_call ::
  "'s SubscriptionRepository \<Rightarrow> Subscription \<Rightarrow> 's \<Rightarrow> error option \<times> 's" where
  "Update_call repo subToRepo s =
     (case repo_Update repo subToRepo s of
        (Some err, s') \<Rightarrow>
          (Some (if errors_Is_ErrNoRows err then ErrSubscriptionNotFound
                 else RepoError err), s')
      | (None, s') \<Rightarrow> (None, s'))"

definition Sum_call ::
  "'s SubscriptionRepository \<Rightarrow> SumSubscription \<Rightarrow> 's \<Rightarrow> (error + go_int) \<times> 's" where
  "Sum_call repo sumFilter s =
     (case repo_Sum repo sumFilter s of
        (Inl err, s') \<Rightarrow> (Inl (RepoError err), s')
      | (Inr totalSum, s') \<Rightarrow> (Inr totalSum, s'))"

definition Service_Create ::
  "(string \<Rightarrow> bool) \<Rightarrow> 's SubscriptionRepository \<Rightarrow> CreateSubscription \<Rightarrow> 's
    \<Rightarrow> (error + Subscription) \<times> 's" where
  "Service_Create uuid_Parse repo data s =
     (if TrimSpace (in_ServiceName data) = [] then (Inl ErrInvalidServiceName, s)
      else if sint (in_Price data) \<le> 0 then (Inl ErrInvalidPrice, s)
      else if \<not> uuid_Parse (in_UserID data) then (Inl ErrInvalidUserID, s)
      else
        (case Parse_01_2006 (in_StartDate data) of
           None \<Rightarrow> (Inl ErrInvalidStartDate, s)
         | Some start \<Rightarrow>
             (case parseEndDate (in_EndDate data) start of
                Inl e \<Rightarrow> (Inl e, s)
              | Inr end_date \<Rightarrow>
                  Create_call repo
                    \<lparr>ID = 0, ServiceName = TrimSpace (in_ServiceName data),
                     Price = in_Price data, UserID = in_UserID data,
                     StartDate = start, EndDate = end_date\<rparr> s)))"

definition Service_Get ::
  "'s SubscriptionRepository \<Rightarrow> int \<Rightarrow> 's \<Rightarrow> (error + Subscription option) \<times> 's" where
  "Service_Get repo i s =
     (if i \<le> 0 then (Inl ErrInvalidID, s)
      else
        (case repo_Get repo i s of
           (Inl err, s') \<Rightarrow>
             (Inl (if errors_Is_ErrNoRows err then ErrSubscriptionNotFound
                   else RepoError err), s')
         | (Inr sub, s') \<Rightarrow> (Inr sub, s')))"

definition Service_Update ::
  "(string \<Rightarrow> bool) \<Rightarrow> 's SubscriptionRepository \<Rightarrow> int \<Rightarrow> CreateSubscription \<Rightarrow> 's
    \<Rightarrow> error option \<times> 's" where
  "Service_Update uuid_Parse repo i sub s =
     (if i \<le> 0 then (Some ErrInvalidID, s)
      else if TrimSpace (in_ServiceName sub) = [] then (Some ErrInvalidServiceName, s)
      else if sint (in_Price sub) \<le> 0 then (Some ErrInvalidPrice, s)
      else if \<not> uuid_Parse (in_UserID sub) then (Some ErrInvalidUserID, s)
      else
        (case Parse_01_2006 (in_StartDate sub) of
           None \<Rightarrow> (Some ErrInvalidStartDate, s)
         | Some start \<Rightarrow>
             (case parseEndDate (in_EndDate sub) start of
                Inl e \<Rightarrow> (Some e, s)
              | Inr end_date \<Rightarrow>
                  Update_call repo
                    \<lparr>ID = i, ServiceName = TrimSpace (in_ServiceName sub),
                     Price = in_Price sub, UserID = in_UserID sub,
                     StartDate = start, EndDate = end_date\<rparr> s)))"

definition Service_Delete ::
  "'s SubscriptionRepository \<Rightarrow> int \<Rightarrow> 's \<Rightarrow> error option \<times> 's" where
  "Service_Delete repo i s =
     (if i \<le> 0 then (Some ErrInvalidID, s)
      else
        (case repo_Delete repo i s of
           (Some err, s') \<Rightarrow>
             (Some (if errors_Is_ErrNoRows err then ErrSubscriptionNotFound
                    else RepoError err), s')
         | (None, s') \<Rightarrow> (None, s')))"

definition Service_List ::
  "(string \<Rightarrow> bool) \<Rightarrow> 's SubscriptionRepository \<Rightarrow> string \<Rightarrow> 's
    \<Rightarrow> (error + Subscription list) \<times> 's" where
  "Service_List uuid_Parse repo userID s =
     (if \<not> uuid_Parse userID then (Inl ErrInvalidUserID, s)
      else
        (case repo_List repo userID s of
           (Inl err, s') \<Rightarrow> (Inl (RepoError err), s')
         | (Inr result, s') \<Rightarrow> (Inr result, s')))"

definition Service_Sum ::
  "(string \<Rightarrow> bool) \<Rightarrow> 's SubscriptionRepository \<Rightarrow> FilterForSumSubscription \<Rightarrow> 's
    \<Rightarrow> (error + go_int) \<times> 's" where
  "Service_Sum uuid_Parse repo flt s =
     (if TrimSpace (flt_ServiceName flt) = [] then (Inl ErrInvalidServiceName, s)
      else if \<not> uuid_Parse (flt_UserID flt) then (Inl ErrInvalidUserID, s)
      else
        (case Parse_01_2006 (flt_From flt) of
           None \<Rightarrow> (Inl ErrInvalidStartDate, s)
         | Some from \<Rightarrow>
             (case Parse_01_2006 (flt_To flt) of
                None \<Rightarrow> (Inl ErrInvalidEndDate, s)
              | Some to \<Rightarrow>
                  if Before to from then (Inl ErrInvalidEndDate, s)
                  else
                    Sum_call repo
                      \<lparr>sum_UserID = flt_UserID flt,
                       sum_ServiceName = TrimSpace (flt_ServiceName flt),
                       From = from, To = to\<rparr> s)))"

section \<open>The storage layer: \<^verbatim>\<open>Storage.Sum\<close>\<close>

text \<open>
  \<^verbatim>\<open>Storage.Sum\<close> sends \<^verbatim>\<open>SumQuery\<close> with the four fields of the filter to the
  database and folds over the rows it returns.  The database is outside the program:
  it is a function from the arguments of the query to what \<^verbatim>\<open>QueryContext\<close> returns,
  an error or a result set.  A result set is the sequence of the rows that \<^verbatim>\<open>Next\<close>
  delivers, each with the outcome of its \<^verbatim>\<open>Scan\<close> (an error, or the three columns
  price, start date and end date, the last of which may be NULL), and the error that
  \<^verbatim>\<open>rows.Err\<close> reports when the iteration is over.
\<close>

record row =
  price :: go_int
  startDate :: Time
  endDate :: "Time option"

record result_set =
  scans :: "(repo_error + row) list"
  rows_Err :: "repo_error option"

type_synonym database = "string \<Rightarrow> string \<Rightarrow> Time \<Rightarrow> Time \<Rightarrow> repo_error + result_set"


text \<open>
  The body of the loop, in the order of the source.  The start of the overlap is the
  later of the row's start and the filter's \<^verbatim>\<open>From\<close>.
\<close>

definition overlapFrom :: "SumSubscription \<Rightarrow> row \<Rightarrow> Time" where
  "overlapFrom flt r =
     (if After (startDate r) (From flt) then startDate r else From flt)"

text \<open>The end of the overlap is the earlier of the row's end, if it has one, and \<^verbatim>\<open>To\<close>.\<close>

definition overlapTo :: "SumSubscription \<Rightarrow> row \<Rightarrow> Time" where
  "overlapTo flt r =
     (case endDate r of
        None \<Rightarrow> To flt
      | Some e \<Rightarrow> if Before e (To flt) then e else To flt)"

text \<open>
  The number of months from one time to another, both counted:
  \<^verbatim>\<open>(y2-y1)*12 + int(m2-m1) + 1\<close>.  The year of a \<^verbatim>\<open>time.Time\<close> is far below
  \<open>2 ^ 40\<close> in absolute value, so this sum does not overflow and is computed exactly.
\<close>

definition monthsInclusive :: "Time \<Rightarrow> Time \<Rightarrow> int" where
  "monthsInclusive from to =
     (case Date from of
        (y1, m1, d1) \<Rightarrow>
          (case Date to of
             (y2, m2, d2) \<Rightarrow> (y2 - y1) * 12 + (Month_int m2 - Month_int m1) + 1))"

text \<open>
  The end of the body: a negative count is skipped, any other adds
  \<^verbatim>\<open>price * months\<close> to the total, in 64-bit arithmetic.
\<close>

definition addMonths :: "go_int \<Rightarrow> go_int \<Rightarrow> int \<Rightarrow> go_int" where
  "addMonths tot p months = (if months < 0 then tot else tot + p * of_int months)"

definition Sum_row :: "SumSubscription \<Rightarrow> go_int \<Rightarrow> row \<Rightarrow> go_int" where
  "Sum_row flt tot r =
     (if After (overlapFrom flt r) (overlapTo flt r) then tot
      else addMonths tot (price r)
             (monthsInclusive (overlapFrom flt r) (overlapTo flt r)))"

fun Sum_loop :: "SumSubscription \<Rightarrow> (repo_error + row) list \<Rightarrow> go_int \<Rightarrow> repo_error + go_int" where
  "Sum_loop flt [] tot = Inr tot"
| "Sum_loop flt (Inl err # rs) tot = Inl (Wrapped ''scan rows'' err)"
| "Sum_loop flt (Inr r # rs) tot = Sum_loop flt rs (Sum_row flt tot r)"

definition Storage_Sum :: "database \<Rightarrow> SumSubscription \<Rightarrow> repo_error + go_int" where
  "Storage_Sum db flt =
     (case db (sum_UserID flt) (sum_ServiceName flt) (From flt) (To flt) of
        Inl err \<Rightarrow> Inl (Wrapped ''query failed'' err)
      | Inr rows \<Rightarrow>
          (case Sum_loop flt (scans rows) 0 of
             Inl err \<Rightarrow> Inl err
           | Inr tot \<Rightarrow>
               (case rows_Err rows of
                  Some err \<Rightarrow> Inl (Wrapped ''rows iteration error'' err)
                | None \<Rightarrow> Inr tot)))"

section \<open>The doubles of the tests\<close>

text \<open>
  \<^verbatim>\<open>stubRepo\<close> of \<^verbatim>\<open>service_test.go\<close>: a repository that records the argument of
  each call in a field of its own and answers with the values it was set up with.  In Go
  it keeps the pointer to the model it was given, and so sees the identifier that Create
  writes into the model after the call; here it keeps the model as it was at the call.
\<close>

record stubRepo =
  createSub :: "Subscription option"
  createID :: int
  createErr :: "repo_error option"
  getID :: int
  getSub :: "Subscription option"
  getErr :: "repo_error option"
  updateSub :: "Subscription option"
  updateErr :: "repo_error option"
  deleteID :: int
  deleteErr :: "repo_error option"
  listUserID :: string
  listSubs :: "Subscription list"
  listErr :: "repo_error option"
  sumFilter :: "SumSubscription option"
  sumTotal :: go_int
  sumErr :: "repo_error option"

definition stub :: "stubRepo SubscriptionRepository" where
  "stub =
     \<lparr>repo_Create = (\<lambda>sub r.
        ((case createErr r of Some err \<Rightarrow> Inl err | None \<Rightarrow> Inr (createID r)),
         r\<lparr>createSub := Some sub\<rparr>)),
      repo_Get = (\<lambda>i r.
        ((case getErr r of Some err \<Rightarrow> Inl err | None \<Rightarrow> Inr (getSub r)),
         r\<lparr>getID := i\<rparr>)),
      repo_Update = (\<lambda>sub r. (updateErr r, r\<lparr>updateSub := Some sub\<rparr>)),
      repo_Delete = (\<lambda>i r. (deleteErr r, r\<lparr>deleteID := i\<rparr>)),
      repo_List = (\<lambda>userID r.
        ((case listErr r of Some err \<Rightarrow> Inl err | None \<Rightarrow> Inr (listSubs r)),
         r\<lparr>listUserID := userID\<rparr>)),
      repo_Sum = (\<lambda>f r.
        ((case sumErr r of Some err \<Rightarrow> Inl err | None \<Rightarrow> Inr (sumTotal r)),
         r\<lparr>sumFilter := Some f\<rparr>))\<rparr>"

text \<open>\<^verbatim>\<open>&stubRepo{}\<close>: every field at its zero value (no filter recorded yet).\<close>

definition stubRepo_zero :: stubRepo where
  "stubRepo_zero =
     \<lparr>createSub = None, createID = 0, createErr = None,
      getID = 0, getSub = None, getErr = None,
      updateSub = None, updateErr = None,
      deleteID = 0, deleteErr = None,
      listUserID = [], listSubs = [], listErr = None,
      sumFilter = None, sumTotal = 0, sumErr = None\<rparr>"

text \<open>
  The textual form of a UUID that appears in the tests, 36 bytes
  \<^verbatim>\<open>xxxxxxxx-xxxx-xxxx-xxxx-xxxxxxxxxxxx\<close> of hexadecimal digits: one instance of the
  parameter \<open>uuid_Parse\<close>, for the examples.
\<close>

definition isHex :: "char \<Rightarrow> bool" where
  "isHex c \<longleftrightarrow>
     c \<in> set ''0123456789abcdefABCDEF''"

definition uuid_36 :: "string \<Rightarrow> bool" where
  "uuid_36 s \<longleftrightarrow>
     length s = 36 \<and> s ! 8 = CHR ''-'' \<and> s ! 13 = CHR ''-'' \<and> s ! 18 = CHR ''-''
     \<and> s ! 23 = CHR ''-''
     \<and> list_all (\<lambda>x. isHex (s ! x) \<and> isHex (s ! (x + 1)))
          [0, 2, 4, 6, 9, 11, 14, 16, 19, 21, 24, 26, 28, 30, 32, 34]"

text \<open>
  \<^verbatim>\<open>time.Date(y, m, 1, 0, 0, 0, 0, time.UTC)\<close>, the first instant of a month, as the
  tests of the storage layer write their dates.
\<close>

definition firstOfMonth :: "int \<Rightarrow> Month \<Rightarrow> Time" where
  "firstOfMonth y m = \<lparr>year = y, month = m, day = 1, nsec = 0\<rparr>"

text \<open>
  The database of \<^verbatim>\<open>TestStorage_Sum_OK\<close>: \<^verbatim>\<open>sqlmock\<close> answers the query with the
  rows it was given, all of which scan.
\<close>

definition WillReturnRows :: "row list \<Rightarrow> database" where
  "WillReturnRows rs = (\<lambda>userID serviceName from to. Inr \<lparr>scans = map Inr rs, rows_Err = None\<rparr>)"

text \<open>
  The inputs of the tests of the service: the user of every test, the subscription of
  \<^verbatim>\<open>TestService_Create_Success\<close> with the model that Create returns for it when the
  repository answers with the identifier 10, the filter of \<^verbatim>\<open>TestService_Sum_Success\<close>,
  and an input with a blank service name and the price 0.
\<close>

definition test_user :: string where
  "test_user = ''550e8400-e29b-41d4-a716-446655440000''"

definition create_ok :: CreateSubscription where
  "create_ok =
     \<lparr>in_ServiceName = ''  Netflix  '', in_Price = 999, in_UserID = test_user,
      in_StartDate = ''01-2024'', in_EndDate = Some ''02-2024''\<rparr>"

definition sum_ok :: FilterForSumSubscription where
  "sum_ok =
     \<lparr>flt_UserID = test_user, flt_ServiceName = ''Netflix'', flt_From = ''01-2024'',
      flt_To = ''02-2024''\<rparr>"

definition two_invalid :: CreateSubscription where
  "two_invalid = create_ok\<lparr>in_ServiceName := '' '', in_Price := 0\<rparr>"

definition created :: Subscription where
  "created =
     \<lparr>ID = 10, ServiceName = ''Netflix'', Price = 999, UserID = test_user,
      StartDate = firstOfMonth 2024 January, EndDate = Some (firstOfMonth 2024 February)\<rparr>"

section \<open>The specification's notions\<close>

text \<open>
  The definitions of this section are written from the words of the specification, to
  be compared with the program.
\<close>

subsection \<open>The format \<^verbatim>\<open>MM-YYYY\<close>\<close>

definition decimalDigit :: "char \<Rightarrow> bool" where
  "decimalDigit c \<longleftrightarrow> c \<in> set ''0123456789''"

definition digitValue :: "char \<Rightarrow> int" where
  "digitValue c = of_char c - 48"

text \<open>The number a string of decimal digits denotes.\<close>

definition decimalValue :: "string \<Rightarrow> int" where
  "decimalValue s = foldl (\<lambda>a c. 10 * a + digitValue c) 0 s"

definition monthOf :: "string \<Rightarrow> int" where
  "monthOf s = decimalValue (take 2 s)"

definition yearOf :: "string \<Rightarrow> int" where
  "yearOf s = decimalValue (drop 3 s)"

text \<open>
  Exactly \<^verbatim>\<open>MM-YYYY\<close>: seven characters, a two-digit month from 01 to 12, a hyphen,
  a four-digit year.
\<close>

fun is_MM_YYYY :: "string \<Rightarrow> bool" where
  "is_MM_YYYY [m1, m2, sep, y1, y2, y3, y4] \<longleftrightarrow>
     decimalDigit m1 \<and> decimalDigit m2 \<and> sep = CHR ''-''
     \<and> decimalDigit y1 \<and> decimalDigit y2 \<and> decimalDigit y3 \<and> decimalDigit y4
     \<and> 1 \<le> monthOf [m1, m2] \<and> monthOf [m1, m2] \<le> 12"
| "is_MM_YYYY s \<longleftrightarrow> False"

text \<open>The canonical month a string in the format denotes.\<close>

definition canonicalMonth :: "string \<Rightarrow> Time" where
  "canonicalMonth s = firstOfMonth (yearOf s) (Month_of (nat (monthOf s)))"

text \<open>Writing a month of the years 0 to 9999 in the format.\<close>

definition digitChar :: "int \<Rightarrow> char" where
  "digitChar n = char_of (48 + n)"

definition format_MM_YYYY :: "int \<Rightarrow> Month \<Rightarrow> string" where
  "format_MM_YYYY y m =
     [digitChar (Month_int m div 10), digitChar (Month_int m mod 10), CHR ''-'',
      digitChar (y div 1000), digitChar (y div 100 mod 10), digitChar (y div 10 mod 10),
      digitChar (y mod 10)]"

subsection \<open>The order of validation\<close>

text \<open>
  A validation is a list of checks in a fixed order, each with the error it reports;
  the error of the validation is that of the first check that fails.
\<close>

fun first_failure :: "(bool \<times> error) list \<Rightarrow> error option" where
  "first_failure [] = None"
| "first_failure ((failed, e) # checks) = (if failed then Some e else first_failure checks)"

definition invalidServiceName :: "string \<Rightarrow> bool" where
  "invalidServiceName raw \<longleftrightarrow> TrimSpace raw = []"

definition invalidPrice :: "go_int \<Rightarrow> bool" where
  "invalidPrice p \<longleftrightarrow> sint p \<le> 0"

definition invalidMonth :: "string \<Rightarrow> bool" where
  "invalidMonth raw \<longleftrightarrow> \<not> is_MM_YYYY raw"

text \<open>
  An end date is invalid when it is present, not empty, and either not in the format or
  a month before the start month (when that is valid).
\<close>

definition invalidEndDate :: "string \<Rightarrow> string option \<Rightarrow> bool" where
  "invalidEndDate rawStart rawEnd \<longleftrightarrow>
     (case rawEnd of
        None \<Rightarrow> False
      | Some e \<Rightarrow>
          e \<noteq> [] \<and>
          (invalidMonth e \<or>
           (is_MM_YYYY rawStart \<and> Before (canonicalMonth e) (canonicalMonth rawStart))))"

text \<open>The fields of a subscription in the order service name, price, user id, start, end.\<close>

definition subscription_checks :: "(string \<Rightarrow> bool) \<Rightarrow> CreateSubscription \<Rightarrow> (bool \<times> error) list" where
  "subscription_checks uuid_Parse d =
     [(invalidServiceName (in_ServiceName d), ErrInvalidServiceName),
      (invalidPrice (in_Price d), ErrInvalidPrice),
      (\<not> uuid_Parse (in_UserID d), ErrInvalidUserID),
      (invalidMonth (in_StartDate d), ErrInvalidStartDate),
      (invalidEndDate (in_StartDate d) (in_EndDate d), ErrInvalidEndDate)]"

text \<open>
  The fields of a query in the order service name, user id, from, to, and then the check
  that \<^verbatim>\<open>to\<close> is not before \<^verbatim>\<open>from\<close>.
\<close>

definition query_checks :: "(string \<Rightarrow> bool) \<Rightarrow> FilterForSumSubscription \<Rightarrow> (bool \<times> error) list" where
  "query_checks uuid_Parse q =
     [(invalidServiceName (flt_ServiceName q), ErrInvalidServiceName),
      (\<not> uuid_Parse (flt_UserID q), ErrInvalidUserID),
      (invalidMonth (flt_From q), ErrInvalidStartDate),
      (invalidMonth (flt_To q), ErrInvalidEndDate),
      (Before (canonicalMonth (flt_To q)) (canonicalMonth (flt_From q)), ErrInvalidEndDate)]"

text \<open>The validation errors, as opposed to those that come from the repository.\<close>

fun validation_error :: "error \<Rightarrow> bool" where
  "validation_error (RepoError err) = False"
| "validation_error ErrSubscriptionNotFound = False"
| "validation_error e = True"

subsection \<open>The aggregation\<close>

text \<open>The later and the earlier of two times.\<close>

definition latest :: "Time \<Rightarrow> Time \<Rightarrow> Time" where
  "latest a b = (if Before a b then b else a)"

definition earliest :: "Time \<Rightarrow> Time \<Rightarrow> Time" where
  "earliest a b = (if Before b a then b else a)"

definition effectiveStart :: "SumSubscription \<Rightarrow> row \<Rightarrow> Time" where
  "effectiveStart q r = latest (startDate r) (From q)"

definition effectiveEnd :: "SumSubscription \<Rightarrow> row \<Rightarrow> Time" where
  "effectiveEnd q r =
     (case endDate r of None \<Rightarrow> To q | Some e \<Rightarrow> earliest e (To q))"

definition monthsSpan :: "Time \<Rightarrow> Time \<Rightarrow> int" where
  "monthsSpan s e =
     (year e - year s) * 12 + (Month_int (month e) - Month_int (month s)) + 1"

text \<open>What a row adds to the total.\<close>

definition contribution :: "SumSubscription \<Rightarrow> row \<Rightarrow> go_int" where
  "contribution q r = Sum_row q 0 r"

text \<open>
  The months of overlap of a row with the query, and the total of the rows as a
  mathematical integer, free of the limits of a machine word.
\<close>

definition overlapMonths :: "SumSubscription \<Rightarrow> row \<Rightarrow> int" where
  "overlapMonths q r =
     (if After (effectiveStart q r) (effectiveEnd q r) then 0
      else monthsSpan (effectiveStart q r) (effectiveEnd q r))"

definition exactTotal :: "SumSubscription \<Rightarrow> row list \<Rightarrow> int" where
  "exactTotal q rs = sum_list (map (\<lambda>r. sint (price r) * overlapMonths q r) rs)"

text \<open>The query and the two rows of \<^verbatim>\<open>TestStorage_Sum_OK\<close>.\<close>

definition test_filter :: SumSubscription where
  "test_filter =
     \<lparr>sum_UserID = ''user-1'', sum_ServiceName = ''Netflix'',
      From = firstOfMonth 2024 January, To = firstOfMonth 2024 March\<rparr>"

definition test_row1 :: row where
  "test_row1 = \<lparr>price = 100, startDate = firstOfMonth 2024 January, endDate = None\<rparr>"

definition test_row2 :: row where
  "test_row2 =
     \<lparr>price = 50, startDate = firstOfMonth 2024 February,
      endDate = Some (firstOfMonth 2024 February)\<rparr>"

subsection \<open>Canonical values\<close>

text \<open>
  The subscription that a valid input denotes, with a given identifier and end date, and
  the query that a valid filter denotes.
\<close>

definition normalized :: "CreateSubscription \<Rightarrow> int \<Rightarrow> Time option \<Rightarrow> Subscription" where
  "normalized d i end_date =
     \<lparr>ID = i, ServiceName = TrimSpace (in_ServiceName d), Price = in_Price d,
      UserID = in_UserID d, StartDate = canonicalMonth (in_StartDate d),
      EndDate = end_date\<rparr>"

definition normalizedQuery :: "FilterForSumSubscription \<Rightarrow> SumSubscription" where
  "normalizedQuery q =
     \<lparr>sum_UserID = flt_UserID q, sum_ServiceName = TrimSpace (flt_ServiceName q),
      From = canonicalMonth (flt_From q), To = canonicalMonth (flt_To q)\<rparr>"

text \<open>
  The end date that a valid input denotes: none when the field is absent or empty.
\<close>

definition canonicalEnd :: "string option \<Rightarrow> Time option" where
  "canonicalEnd raw =
     (case raw of
        None \<Rightarrow> None
      | Some e \<Rightarrow> if e = [] then None else Some (canonicalMonth e))"


text \<open>
  Further rows for the query of the test: one that starts after the query ends, and one
  with a very large price.
\<close>

definition example_late_row :: row where
  "example_late_row = \<lparr>price = 100, startDate = firstOfMonth 2024 May, endDate = None\<rparr>"

definition example_large_row :: row where
  "example_large_row =
     \<lparr>price = 4611686018427387904, startDate = firstOfMonth 2024 January, endDate = None\<rparr>"

section \<open>Properties of times\<close>

lemma Month_int_bounds: "1 \<le> Month_int m \<and> Month_int m \<le> 12"
  by (cases m) simp_all

lemma Month_int_inject: "Month_int a = Month_int b \<longleftrightarrow> a = b"
  by (cases a; cases b) simp_all

lemma Before_irrefl: "\<not> Before t t"
  by (simp add: Before_def)

lemma Before_asym: "Before a b \<Longrightarrow> \<not> Before b a"
  by (auto simp: Before_def)

lemma Before_total: "\<not> Before a b \<Longrightarrow> \<not> Before b a \<Longrightarrow> a = (b::Time)"
  using Month_int_inject [of "month a" "month b"]
  by (cases a; cases b) (auto simp: Before_def)

section \<open>The parser and the format\<close>

text \<open>A decimal digit is a byte from 48 to 57, which is how the parser tests it.\<close>

lemma decimalDigit_iff: "decimalDigit c \<longleftrightarrow> 48 \<le> (of_char c :: int) \<and> (of_char c :: int) \<le> 57"
proof
  assume "decimalDigit c"
  then show "48 \<le> (of_char c :: int) \<and> (of_char c :: int) \<le> 57"
    by (auto simp: decimalDigit_def)
next
  assume a: "48 \<le> (of_char c :: int) \<and> (of_char c :: int) \<le> 57"
  have eq: "c = d \<longleftrightarrow> (of_char c :: int) = of_char d" for d
    by simp
  from a have "(of_char c :: int) \<in> {48, 49, 50, 51, 52, 53, 54, 55, 56, 57}"
    by (simp; arith)
  then show "decimalDigit c"
    unfolding decimalDigit_def by (simp add: eq del: of_char_eq_iff)
qed

lemma digit_not_sign: "decimalDigit c \<Longrightarrow> c \<noteq> CHR ''-'' \<and> c \<noteq> CHR ''+''"
  by (auto simp: decimalDigit_def)

lemma digitValue_range: "decimalDigit c \<Longrightarrow> 0 \<le> digitValue c \<and> digitValue c \<le> 9"
  by (simp add: decimalDigit_iff digitValue_def)

lemma isDigit_iff: "isDigit s i \<longleftrightarrow> i < length s \<and> decimalDigit (s ! i)"
  by (simp add: isDigit_def decimalDigit_iff)

lemma leadingInt_digit:
  "decimalDigit c \<Longrightarrow> 0 \<le> x \<Longrightarrow> x \<le> 999 \<Longrightarrow>
   leadingInt (c # s) x = leadingInt s (x * 10 + digitValue c)"
  using digitValue_range [of c]
  by (simp add: decimalDigit_iff digitValue_def)

lemma leadingInt_nondigit: "\<not> decimalDigit c \<Longrightarrow> leadingInt (c # s) x = Some (x, c # s)"
  by (auto simp: decimalDigit_iff)

lemma atoi_four:
  "decimalDigit y1 \<Longrightarrow>
   atoi [y1, y2, y3, y4] =
     (if decimalDigit y2 \<and> decimalDigit y3 \<and> decimalDigit y4
      then Some (decimalValue [y1, y2, y3, y4]) else None)"
  using digitValue_range [of y1] digitValue_range [of y2] digitValue_range [of y3]
    digitValue_range [of y4] digit_not_sign [of y1]
  by (cases "decimalDigit y2"; cases "decimalDigit y3"; cases "decimalDigit y4")
     (simp_all add: atoi_def leadingInt_digit leadingInt_nondigit decimalValue_def
        del: leadingInt.simps(2))

lemma getnum_fixed:
  "getnum (m1 # m2 # s) True =
     (if decimalDigit m1 \<and> decimalDigit m2 then Some (monthOf [m1, m2], s) else None)"
  by (simp add: getnum_def isDigit_iff monthOf_def decimalValue_def digitValue_def)

lemma getnum_short: "length s < 2 \<Longrightarrow> getnum s True = None"
  by (simp add: getnum_def isDigit_iff)

lemma Parse_seven:
  "Parse_01_2006 [m1, m2, sep, y1, y2, y3, y4] =
     (if is_MM_YYYY [m1, m2, sep, y1, y2, y3, y4]
      then Some (canonicalMonth [m1, m2, sep, y1, y2, y3, y4]) else None)"
proof (cases "decimalDigit y1")
  case True
  then show ?thesis
    by (simp add: Parse_01_2006_def getnum_fixed isDigit_iff atoi_four canonicalMonth_def
        yearOf_def monthOf_def firstOfMonth_def)
next
  case False
  then show ?thesis
    by (simp add: Parse_01_2006_def getnum_fixed isDigit_iff)
qed

lemma Parse_01_2006_spec:
  "Parse_01_2006 s = (if is_MM_YYYY s then Some (canonicalMonth s) else None)"
proof (cases s rule: is_MM_YYYY.cases)
  case (1 m1 m2 sep y1 y2 y3 y4)
  then show ?thesis by (simp only: Parse_seven)
qed (simp_all add: Parse_01_2006_def getnum_fixed getnum_short isDigit_iff
      split: option.split)

text \<open>Writing a month in the format gives a string of the format that denotes it.\<close>

lemma digitChar_digit:
  "0 \<le> n \<Longrightarrow> n \<le> 9 \<Longrightarrow> decimalDigit (digitChar n) \<and> digitValue (digitChar n) = n"
  by (simp add: decimalDigit_iff digitValue_def digitChar_def)

lemma Month_of_Month_int: "Month_of (nat (Month_int m)) = m"
  by (cases m) (simp_all add: Month_of_def)

lemma year_digits:
  "10 * (10 * (10 * (y div 1000) + y div 100 mod 10) + y div 10 mod 10) + y mod 10 = (y::int)"
proof -
  define q1 r0 where "q1 = y div 10" and "r0 = y mod 10"
  define q2 r1 where "q2 = q1 div 10" and "r1 = q1 mod 10"
  define q3 r2 where "q3 = q2 div 10" and "r2 = q2 mod 10"
  have e0: "y = 10 * q1 + r0"
    unfolding q1_def r0_def by (rule mult_div_mod_eq [symmetric])
  have e1: "q1 = 10 * q2 + r1"
    unfolding q2_def r1_def by (rule mult_div_mod_eq [symmetric])
  have e2: "q2 = 10 * q3 + r2"
    unfolding q3_def r2_def by (rule mult_div_mod_eq [symmetric])
  have "y div 100 = y div 10 div 10"
    using zdiv_zmult2_eq [of 10 y 10] by simp
  then have a: "y div 100 = q2"
    by (simp only: q1_def q2_def)
  have "y div 1000 = y div 100 div 10"
    using zdiv_zmult2_eq [of 10 y 100] by simp
  then have b: "y div 1000 = q3"
    by (simp only: a q3_def)
  have "10 * (10 * (10 * q3 + r2) + r1) + r0 = y"
    by (simp only: e0 [symmetric] e1 [symmetric] e2 [symmetric])
  then show ?thesis
    by (simp only: a b q1_def [symmetric] r0_def [symmetric] r1_def [symmetric] r2_def [symmetric])
qed

lemma mod10_digit: "0 \<le> q mod 10 \<and> q mod 10 \<le> (9::int)"
  using pos_mod_sign [of 10 q] pos_mod_bound [of 10 q] by simp

lemma thousands_digit: "0 \<le> y \<Longrightarrow> y \<le> 9999 \<Longrightarrow> 0 \<le> y div 1000 \<and> y div 1000 \<le> (9::int)"
  by linarith

lemma month_digits:
  "0 \<le> Month_int m div 10 \<and> Month_int m div 10 \<le> 9
   \<and> 10 * (Month_int m div 10) + Month_int m mod 10 = Month_int m"
  by (cases m) simp_all

lemma digits_MM_YYYY:
  assumes "0 \<le> a \<and> a \<le> 9" "0 \<le> b \<and> b \<le> 9" "0 \<le> c \<and> c \<le> 9" "0 \<le> d \<and> d \<le> 9"
    "0 \<le> e \<and> e \<le> 9" "0 \<le> f \<and> f \<le> 9" "1 \<le> 10 * a + b" "10 * a + b \<le> 12"
  shows "is_MM_YYYY [digitChar a, digitChar b, CHR ''-'', digitChar c, digitChar d,
           digitChar e, digitChar f]
    \<and> canonicalMonth [digitChar a, digitChar b, CHR ''-'', digitChar c, digitChar d,
           digitChar e, digitChar f]
        = firstOfMonth (10 * (10 * (10 * c + d) + e) + f) (Month_of (nat (10 * a + b)))"
  using assms
  by (simp add: digitChar_digit monthOf_def yearOf_def decimalValue_def canonicalMonth_def)

lemma format_spec:
  assumes "0 \<le> y" "y \<le> 9999"
  shows "is_MM_YYYY (format_MM_YYYY y m)
    \<and> canonicalMonth (format_MM_YYYY y m) = firstOfMonth y m"
proof -
  have m: "1 \<le> 10 * (Month_int m div 10) + Month_int m mod 10"
    "10 * (Month_int m div 10) + Month_int m mod 10 \<le> 12"
    using Month_int_bounds [of m] by (simp_all only: month_digits)
  have "is_MM_YYYY (format_MM_YYYY y m)
    \<and> canonicalMonth (format_MM_YYYY y m)
        = firstOfMonth
            (10 * (10 * (10 * (y div 1000) + y div 100 mod 10) + y div 10 mod 10) + y mod 10)
            (Month_of (nat (10 * (Month_int m div 10) + Month_int m mod 10)))"
    unfolding format_MM_YYYY_def
    using month_digits [of m] mod10_digit thousands_digit [OF assms] m
    by (intro digits_MM_YYYY) blast+
  then show ?thesis
    by (simp only: year_digits month_digits Month_of_Month_int)
qed

section \<open>The aggregation of \<^verbatim>\<open>Storage.Sum\<close>\<close>

text \<open>
  The loop clamps as the specification does: where the two times are the same instant it
  does not matter which one the comparison keeps.
\<close>

lemma overlapFrom_eq: "overlapFrom q r = effectiveStart q r"
  using Before_total [of "startDate r" "From q"] Before_asym [of "startDate r" "From q"]
  by (auto simp: overlapFrom_def effectiveStart_def latest_def After_def)

lemma overlapTo_eq: "overlapTo q r = effectiveEnd q r"
  by (auto simp: overlapTo_def effectiveEnd_def earliest_def split: option.splits
        dest: Before_asym Before_total)

lemma monthsInclusive_eq: "monthsInclusive s e = monthsSpan s e"
  by (simp add: monthsInclusive_def monthsSpan_def Date_def)

text \<open>
  Once the start is known not to lie after the end, the count of months is at least one:
  the guard on a negative count never fires on such a pair.
\<close>

lemma monthsSpan_pos: "\<not> After s e \<Longrightarrow> 1 \<le> monthsSpan s e"
  using Month_int_bounds [of "month s"] Month_int_bounds [of "month e"]
    Month_int_inject [of "month s" "month e"]
  by (auto simp: After_def Before_def monthsSpan_def)

lemma Sum_row_contribution: "Sum_row q tot r = tot + contribution q r"
  by (simp add: Sum_row_def contribution_def addMonths_def)

lemma contribution_overlap: "contribution q r = price r * of_int (overlapMonths q r)"
  using monthsSpan_pos [of "effectiveStart q r" "effectiveEnd q r"]
  by (auto simp: contribution_def Sum_row_def addMonths_def overlapMonths_def
      overlapFrom_eq overlapTo_eq monthsInclusive_eq)

lemma overlapMonths_nonneg: "0 \<le> overlapMonths q r"
  using monthsSpan_pos [of "effectiveStart q r" "effectiveEnd q r"]
  by (auto simp: overlapMonths_def)

text \<open>The loop over rows that all scan adds up their contributions.\<close>

lemma Sum_loop_scanned:
  "Sum_loop q (map Inr rs) tot = Inr (tot + sum_list (map (contribution q) rs))"
proof (induction rs arbitrary: tot)
  case Nil
  show ?case by simp
next
  case (Cons r rs)
  show ?case by (simp add: Cons.IH Sum_row_contribution add.assoc)
qed

lemma Storage_Sum_scanned:
  "db (sum_UserID q) (sum_ServiceName q) (From q) (To q)
     = Inr \<lparr>scans = map Inr rs, rows_Err = None\<rparr>
   \<Longrightarrow> Storage_Sum db q = Inr (sum_list (map (contribution q) rs))"
  by (simp add: Storage_Sum_def Sum_loop_scanned)

lemma sum_list_contribution_perm:
  assumes "mset rs = mset rs'"
  shows "sum_list (map (contribution q) rs) = sum_list (map (contribution q) rs')"
proof -
  from assms have "mset (map (contribution q) rs) = mset (map (contribution q) rs')"
    by simp
  then have "sum_mset (mset (map (contribution q) rs))
      = sum_mset (mset (map (contribution q) rs'))"
    by (rule arg_cong)
  then show ?thesis by (simp only: sum_mset_sum_list)
qed

text \<open>In 64 bits the sum of the contributions is the exact total, wrapped.\<close>

lemma exactTotal_word: "sum_list (map (contribution q) rs) = of_int (exactTotal q rs)"
  by (induction rs) (simp_all add: exactTotal_def contribution_overlap)

lemma exactTotal_nonneg: "\<forall>r \<in> set rs. 0 \<le> sint (price r) \<Longrightarrow> 0 \<le> exactTotal q rs"
  by (induction rs) (simp_all add: exactTotal_def overlapMonths_nonneg)

lemma sint_of_int_small: "0 \<le> x \<Longrightarrow> x < 2 ^ 63 \<Longrightarrow> sint (of_int x :: 64 word) = x"
  by (simp add: int_word_sint)

lemmas test_data =
  test_filter_def test_row1_def test_row2_def example_late_row_def
  example_large_row_def firstOfMonth_def

lemmas aggregation_defs =
  contribution_def Sum_row_def overlapFrom_def overlapTo_def monthsInclusive_def Date_def
  addMonths_def After_def Before_def effectiveStart_def effectiveEnd_def latest_def
  earliest_def monthsSpan_def

text \<open>
  C7.  A row whose clamped interval is empty (its effective start lies after its
  effective end) leaves the total as it was, that is, it contributes 0; and the last
  step of the loop body adds nothing for a count of months that is 0 or negative.
\<close>

theorem C7_no_overlap_contributes_zero:
  "(After (effectiveStart q r) (effectiveEnd q r) \<longrightarrow>
      Sum_row q tot r = tot \<and> contribution q r = 0)
   \<and> (months \<le> 0 \<longrightarrow> addMonths tot p months = tot)"
  by (auto simp: Sum_row_def contribution_def addMonths_def overlapFrom_eq overlapTo_eq)

theorem C7_witness:
  "After (effectiveStart test_filter example_late_row)
         (effectiveEnd test_filter example_late_row)
   \<and> Sum_row test_filter 7 example_late_row = 7
   \<and> contribution test_filter example_late_row = 0
   \<and> addMonths 7 100 0 = 7 \<and> addMonths 7 100 (- 1) = 7"
  using C7_no_overlap_contributes_zero [of test_filter example_late_row 7 0 100]
    C7_no_overlap_contributes_zero [of test_filter example_late_row 7 "- 1" 100]
  by (simp add: test_data effectiveStart_def effectiveEnd_def latest_def After_def Before_def)

text \<open>
  C6.  For every query and every two lists of rows that are permutations of each other,
  \<^verbatim>\<open>Storage.Sum\<close> returns the same result when the database delivers the one list or
  the other: the loop reaches the same total from any starting value, and the total from
  0 is the sum of the contributions of the rows, each of which depends on its row alone.
\<close>

theorem C6_total_invariant_under_permutation:
  assumes "mset rs = mset rs'"
    and "db (sum_UserID q) (sum_ServiceName q) (From q) (To q)
           = Inr \<lparr>scans = map Inr rs, rows_Err = err\<rparr>"
    and "db' (sum_UserID q) (sum_ServiceName q) (From q) (To q)
           = Inr \<lparr>scans = map Inr rs', rows_Err = err\<rparr>"
  shows "Storage_Sum db q = Storage_Sum db' q
         \<and> Sum_loop q (map Inr rs) tot = Sum_loop q (map Inr rs') tot
         \<and> Sum_loop q (map Inr rs) 0 = Inr (sum_list (map (contribution q) rs))"
proof -
  have loop: "Sum_loop q (map Inr rs) t = Sum_loop q (map Inr rs') t" for t
    by (simp add: Sum_loop_scanned sum_list_contribution_perm [OF assms(1)])
  have "Storage_Sum db q = Storage_Sum db' q"
    by (simp add: Storage_Sum_def assms(2) assms(3) loop split: sum.split option.split)
  moreover have "Sum_loop q (map Inr rs) 0 = Inr (sum_list (map (contribution q) rs))"
    by (simp add: Sum_loop_scanned)
  ultimately show ?thesis
    using loop [of tot] by (intro conjI)
qed

theorem C6_witness:
  "mset [test_row1, test_row2] = mset [test_row2, test_row1]
   \<and> Storage_Sum (WillReturnRows [test_row1, test_row2]) test_filter
       = Storage_Sum (WillReturnRows [test_row2, test_row1]) test_filter
   \<and> Storage_Sum (WillReturnRows [test_row2, test_row1]) test_filter = Inr 350"
proof -
  have perm: "mset [test_row1, test_row2] = mset [test_row2, test_row1]"
    by (simp add: add.commute)
  have same: "Storage_Sum (WillReturnRows [test_row1, test_row2]) test_filter
       = Storage_Sum (WillReturnRows [test_row2, test_row1]) test_filter"
    using C6_total_invariant_under_permutation
      [OF perm, of "WillReturnRows [test_row1, test_row2]" test_filter None
         "WillReturnRows [test_row2, test_row1]"]
    by (simp add: WillReturnRows_def)
  have "Storage_Sum (WillReturnRows [test_row2, test_row1]) test_filter = Inr 350"
    by (simp add: Storage_Sum_def WillReturnRows_def aggregation_defs test_data)
  with perm same show ?thesis by simp
qed




text \<open>
  C8 (amended).  When every row has a positive price, every row scans, the iteration
  ends without an error, and the exact total of the rows (the sum of price times months
  of overlap, as a mathematical integer) is below \<open>2 ^ 63\<close>, then \<^verbatim>\<open>Storage.Sum\<close>
  returns no error, and the total it returns is that exact total, which is not
  negative.  The two other preconditions of the claim (an end not before the start, and
  \<^verbatim>\<open>to\<close> not before \<^verbatim>\<open>from\<close>) are not needed for this.
\<close>

theorem C8_total_is_the_exact_sum:
  assumes "\<forall>r \<in> set rs. 0 < sint (price r)"
    and "exactTotal q rs < 2 ^ 63"
    and "db (sum_UserID q) (sum_ServiceName q) (From q) (To q)
           = Inr \<lparr>scans = map Inr rs, rows_Err = None\<rparr>"
  shows "\<exists>tot. Storage_Sum db q = Inr tot \<and> sint tot = exactTotal q rs \<and> 0 \<le> sint tot"
proof -
  from assms(1) have "\<forall>r \<in> set rs. 0 \<le> sint (price r)"
    by (simp add: less_imp_le)
  then have nonneg: "0 \<le> exactTotal q rs"
    by (rule exactTotal_nonneg)
  have "Storage_Sum db q = Inr (of_int (exactTotal q rs))"
    using Storage_Sum_scanned [of db q rs] assms(3) by (simp add: exactTotal_word)
  moreover have "sint (of_int (exactTotal q rs) :: 64 word) = exactTotal q rs"
    using nonneg assms(2) by (rule sint_of_int_small)
  ultimately show ?thesis using nonneg by simp
qed

theorem C8_witness:
  "0 < sint (price test_row1) \<and> 0 < sint (price test_row2)
   \<and> exactTotal test_filter [test_row1, test_row2] = 350
   \<and> Storage_Sum (WillReturnRows [test_row1, test_row2]) test_filter = Inr 350
   \<and> sint (350 :: go_int) = 350"
proof -
  have pos: "\<forall>r \<in> set [test_row1, test_row2]. 0 < sint (price r)"
    by (simp add: test_data)
  have ex: "exactTotal test_filter [test_row1, test_row2] = 350"
    by (simp add: exactTotal_def overlapMonths_def aggregation_defs test_data)
  have "\<exists>tot. Storage_Sum (WillReturnRows [test_row1, test_row2]) test_filter = Inr tot
      \<and> sint tot = exactTotal test_filter [test_row1, test_row2] \<and> 0 \<le> sint tot"
    using C8_total_is_the_exact_sum
      [of "[test_row1, test_row2]" test_filter "WillReturnRows [test_row1, test_row2]"] pos
    by (simp add: ex WillReturnRows_def)
  moreover have "Storage_Sum (WillReturnRows [test_row1, test_row2]) test_filter = Inr 350"
    by (simp add: Storage_Sum_def WillReturnRows_def aggregation_defs test_data)
  ultimately show ?thesis using pos ex by simp
qed

text \<open>
  Without the bound on the exact total the claim fails: the addition wraps around.  One
  open row of price \<open>2 ^ 62\<close> over the three months of the query gives the total
  \<open>3 * 2 ^ 62\<close>, which as a 64-bit integer is \<open>- (2 ^ 62)\<close>.
\<close>

theorem C8_counterexample:
  "0 < sint (price example_large_row)
   \<and> endDate example_large_row = None
   \<and> \<not> Before (To test_filter) (From test_filter)
   \<and> Storage_Sum (WillReturnRows [example_large_row]) test_filter
       = Inr (- 4611686018427387904)
   \<and> sint (- 4611686018427387904 :: go_int) < 0"
  by (simp add: Storage_Sum_def WillReturnRows_def aggregation_defs test_data)

section \<open>The validation of the service\<close>

lemma parseEndDate_spec:
  "parseEndDate raw start =
     (case raw of
        None \<Rightarrow> Inr None
      | Some e \<Rightarrow>
          if e = [] then Inr None
          else if is_MM_YYYY e \<and> \<not> Before (canonicalMonth e) start
          then Inr (Some (canonicalMonth e))
          else Inl ErrInvalidEndDate)"
  by (simp add: parseEndDate_def Parse_01_2006_spec split: option.split)

lemma Service_Create_spec:
  "Service_Create uuid_Parse repo d st =
     (if invalidServiceName (in_ServiceName d) then (Inl ErrInvalidServiceName, st)
      else if invalidPrice (in_Price d) then (Inl ErrInvalidPrice, st)
      else if \<not> uuid_Parse (in_UserID d) then (Inl ErrInvalidUserID, st)
      else if invalidMonth (in_StartDate d) then (Inl ErrInvalidStartDate, st)
      else
        (case parseEndDate (in_EndDate d) (canonicalMonth (in_StartDate d)) of
           Inl e \<Rightarrow> (Inl e, st)
         | Inr end_date \<Rightarrow> Create_call repo (normalized d 0 end_date) st))"
  by (simp add: Service_Create_def Parse_01_2006_spec invalidServiceName_def
      invalidPrice_def invalidMonth_def normalized_def split: sum.split)

lemma Service_Update_spec:
  "Service_Update uuid_Parse repo i d st =
     (if i \<le> 0 then (Some ErrInvalidID, st)
      else if invalidServiceName (in_ServiceName d) then (Some ErrInvalidServiceName, st)
      else if invalidPrice (in_Price d) then (Some ErrInvalidPrice, st)
      else if \<not> uuid_Parse (in_UserID d) then (Some ErrInvalidUserID, st)
      else if invalidMonth (in_StartDate d) then (Some ErrInvalidStartDate, st)
      else
        (case parseEndDate (in_EndDate d) (canonicalMonth (in_StartDate d)) of
           Inl e \<Rightarrow> (Some e, st)
         | Inr end_date \<Rightarrow> Update_call repo (normalized d i end_date) st))"
  by (simp add: Service_Update_def Parse_01_2006_spec invalidServiceName_def
      invalidPrice_def invalidMonth_def normalized_def split: sum.split)

lemma Service_Sum_spec:
  "Service_Sum uuid_Parse repo q st =
     (if invalidServiceName (flt_ServiceName q) then (Inl ErrInvalidServiceName, st)
      else if \<not> uuid_Parse (flt_UserID q) then (Inl ErrInvalidUserID, st)
      else if invalidMonth (flt_From q) then (Inl ErrInvalidStartDate, st)
      else if invalidMonth (flt_To q) then (Inl ErrInvalidEndDate, st)
      else if Before (canonicalMonth (flt_To q)) (canonicalMonth (flt_From q))
      then (Inl ErrInvalidEndDate, st)
      else Sum_call repo (normalizedQuery q) st)"
  by (simp add: Service_Sum_def Parse_01_2006_spec invalidServiceName_def
      invalidMonth_def normalizedQuery_def)

lemma parseEndDate_invalid:
  "\<not> invalidMonth rawStart \<Longrightarrow>
   parseEndDate rawEnd (canonicalMonth rawStart) = Inl e
     \<longleftrightarrow> invalidEndDate rawStart rawEnd \<and> e = ErrInvalidEndDate"
  by (auto simp: parseEndDate_spec invalidEndDate_def invalidMonth_def split: option.splits)

lemma Month_int_Month_of: "1 \<le> k \<Longrightarrow> k \<le> 12 \<Longrightarrow> Month_int (Month_of (nat k)) = k"
proof -
  assume "1 \<le> k" "k \<le> 12"
  then have "k = 1 \<or> k = 2 \<or> k = 3 \<or> k = 4 \<or> k = 5 \<or> k = 6 \<or> k = 7 \<or> k = 8 \<or> k = 9
      \<or> k = 10 \<or> k = 11 \<or> k = 12"
    by arith
  then show ?thesis
    by (elim disjE) (simp_all add: Month_of_def)
qed

lemma is_MM_YYYY_month: "is_MM_YYYY s \<Longrightarrow> 1 \<le> monthOf s \<and> monthOf s \<le> 12"
  by (cases s rule: is_MM_YYYY.cases) (simp_all add: monthOf_def)

lemma canonicalMonth_fields:
  "is_MM_YYYY s \<Longrightarrow>
   year (canonicalMonth s) = yearOf s \<and> Month_int (month (canonicalMonth s)) = monthOf s
   \<and> day (canonicalMonth s) = 1 \<and> nsec (canonicalMonth s) = 0"
  using is_MM_YYYY_month [of s]
  by (simp add: canonicalMonth_def firstOfMonth_def Month_int_Month_of)

lemma Before_firstOfMonth:
  "Before (firstOfMonth y m) (firstOfMonth y' m')
     \<longleftrightarrow> y < y' \<or> (y = y' \<and> Month_int m < Month_int m')"
  by (simp add: Before_def firstOfMonth_def)

lemma Before_canonicalMonth:
  "is_MM_YYYY a \<Longrightarrow> is_MM_YYYY b \<Longrightarrow>
   Before (canonicalMonth a) (canonicalMonth b)
     \<longleftrightarrow> yearOf a < yearOf b \<or> (yearOf a = yearOf b \<and> monthOf a < monthOf b)"
  using canonicalMonth_fields [of a] canonicalMonth_fields [of b]
  by (auto simp: Before_def)

text \<open>
  C2.  The parser accepts exactly the strings of the format \<^verbatim>\<open>MM-YYYY\<close>: for such a
  string it returns the first instant of the month whose year and month number are the
  ones the digits denote; for any other string it returns an error.  Every month of the
  years 0 to 9999, written in the format, parses back to itself.  Where the parser is
  called on a string that is not of the format, the service returns the error of the
  field: \<^verbatim>\<open>ErrInvalidStartDate\<close> for the start date of Create and Update and for
  \<^verbatim>\<open>From\<close> of Sum, \<^verbatim>\<open>ErrInvalidEndDate\<close> for the end date of Create and Update and
  for \<^verbatim>\<open>To\<close> of Sum.  The parser is called on a field when the fields before it are
  valid (for Update, when the identifier is positive too), and on the end date of Create
  and Update when it is present and not empty.
\<close>

theorem C2_month_format:
  "(is_MM_YYYY s \<longrightarrow>
      (\<exists>t. Parse_01_2006 s = Some t \<and> year t = yearOf s \<and> Month_int (month t) = monthOf s
           \<and> day t = 1 \<and> nsec t = 0))
   \<and> (\<not> is_MM_YYYY s \<longrightarrow> Parse_01_2006 s = None)
   \<and> (0 \<le> y \<and> y \<le> 9999 \<longrightarrow>
        is_MM_YYYY (format_MM_YYYY y m)
        \<and> Parse_01_2006 (format_MM_YYYY y m) = Some (firstOfMonth y m))
   \<and> (\<not> invalidServiceName (in_ServiceName d) \<and> \<not> invalidPrice (in_Price d)
        \<and> uuid_Parse (in_UserID d) \<longrightarrow>
        (\<not> is_MM_YYYY (in_StartDate d) \<longrightarrow>
           Service_Create uuid_Parse repo d st = (Inl ErrInvalidStartDate, st)
           \<and> (0 < i \<longrightarrow>
                Service_Update uuid_Parse repo i d st = (Some ErrInvalidStartDate, st)))
        \<and> (is_MM_YYYY (in_StartDate d) \<and> in_EndDate d = Some e \<and> e \<noteq> []
             \<and> \<not> is_MM_YYYY e \<longrightarrow>
           Service_Create uuid_Parse repo d st = (Inl ErrInvalidEndDate, st)
           \<and> (0 < i \<longrightarrow>
                Service_Update uuid_Parse repo i d st = (Some ErrInvalidEndDate, st))))
   \<and> (\<not> invalidServiceName (flt_ServiceName q) \<and> uuid_Parse (flt_UserID q) \<longrightarrow>
        (\<not> is_MM_YYYY (flt_From q) \<longrightarrow>
           Service_Sum uuid_Parse repo q st = (Inl ErrInvalidStartDate, st))
        \<and> (is_MM_YYYY (flt_From q) \<and> \<not> is_MM_YYYY (flt_To q) \<longrightarrow>
           Service_Sum uuid_Parse repo q st = (Inl ErrInvalidEndDate, st)))"
proof (intro conjI)
  show "is_MM_YYYY s \<longrightarrow>
      (\<exists>t. Parse_01_2006 s = Some t \<and> year t = yearOf s \<and> Month_int (month t) = monthOf s
           \<and> day t = 1 \<and> nsec t = 0)"
    by (simp add: Parse_01_2006_spec canonicalMonth_fields)
  show "\<not> is_MM_YYYY s \<longrightarrow> Parse_01_2006 s = None"
    by (simp add: Parse_01_2006_spec)
  show "0 \<le> y \<and> y \<le> 9999 \<longrightarrow>
        is_MM_YYYY (format_MM_YYYY y m)
        \<and> Parse_01_2006 (format_MM_YYYY y m) = Some (firstOfMonth y m)"
    using format_spec [of y m] by (simp add: Parse_01_2006_spec)
  show "\<not> invalidServiceName (in_ServiceName d) \<and> \<not> invalidPrice (in_Price d)
        \<and> uuid_Parse (in_UserID d) \<longrightarrow>
        (\<not> is_MM_YYYY (in_StartDate d) \<longrightarrow>
           Service_Create uuid_Parse repo d st = (Inl ErrInvalidStartDate, st)
           \<and> (0 < i \<longrightarrow>
                Service_Update uuid_Parse repo i d st = (Some ErrInvalidStartDate, st)))
        \<and> (is_MM_YYYY (in_StartDate d) \<and> in_EndDate d = Some e \<and> e \<noteq> []
             \<and> \<not> is_MM_YYYY e \<longrightarrow>
           Service_Create uuid_Parse repo d st = (Inl ErrInvalidEndDate, st)
           \<and> (0 < i \<longrightarrow>
                Service_Update uuid_Parse repo i d st = (Some ErrInvalidEndDate, st)))"
    by (simp add: Service_Create_spec Service_Update_spec parseEndDate_spec invalidMonth_def)
  show "\<not> invalidServiceName (flt_ServiceName q) \<and> uuid_Parse (flt_UserID q) \<longrightarrow>
        (\<not> is_MM_YYYY (flt_From q) \<longrightarrow>
           Service_Sum uuid_Parse repo q st = (Inl ErrInvalidStartDate, st))
        \<and> (is_MM_YYYY (flt_From q) \<and> \<not> is_MM_YYYY (flt_To q) \<longrightarrow>
           Service_Sum uuid_Parse repo q st = (Inl ErrInvalidEndDate, st))"
    by (simp add: Service_Sum_spec invalidMonth_def)
qed

subsection \<open>The inputs of the tests, evaluated\<close>

lemma uuid_36_test_user: "uuid_36 test_user"
  by (simp add: uuid_36_def test_user_def isHex_def)

lemma TrimSpace_examples:
  "TrimSpace ''  Netflix  '' = ''Netflix''" "TrimSpace ''Netflix'' = ''Netflix''"
  "TrimSpace '' '' = []" "TrimSpace ''   '' = []"
  by code_simp+

lemma format_examples:
  "is_MM_YYYY ''01-2024''" "is_MM_YYYY ''02-2024''" "is_MM_YYYY ''01-2023''"
  "\<not> is_MM_YYYY ''2024-01-01''" "\<not> is_MM_YYYY ''2024-02-01''"
  "\<not> is_MM_YYYY ''1-2024''" "\<not> is_MM_YYYY ''01-24''" "\<not> is_MM_YYYY ''13-2024''"
  "\<not> is_MM_YYYY ''01/2024''" "\<not> is_MM_YYYY ''01-2024 ''" "\<not> is_MM_YYYY ''ab-2024''"
  "\<not> is_MM_YYYY ''''"
  by (simp_all add: decimalDigit_def monthOf_def decimalValue_def digitValue_def)

lemma canonical_examples:
  "canonicalMonth ''01-2024'' = firstOfMonth 2024 January"
  "canonicalMonth ''02-2024'' = firstOfMonth 2024 February"
  "canonicalMonth ''01-2023'' = firstOfMonth 2023 January"
  by (simp_all add: canonicalMonth_def monthOf_def yearOf_def decimalValue_def digitValue_def
      Month_of_def)

lemmas service_examples =
  create_ok_def sum_ok_def uuid_36_test_user TrimSpace_examples
  canonical_examples invalidServiceName_def invalidPrice_def invalidMonth_def
  decimalDigit_def monthOf_def decimalValue_def digitValue_def

theorem C2_witness:
  "Parse_01_2006 ''01-2024'' = Some (firstOfMonth 2024 January)
   \<and> year (the (Parse_01_2006 ''02-2024'')) = 2024
   \<and> Month_int (month (the (Parse_01_2006 ''02-2024''))) = 2
   \<and> day (the (Parse_01_2006 ''02-2024'')) = 1
   \<and> nsec (the (Parse_01_2006 ''02-2024'')) = 0
   \<and> Parse_01_2006 ''2024-01-01'' = None \<and> Parse_01_2006 ''1-2024'' = None
   \<and> Parse_01_2006 ''01-24'' = None \<and> Parse_01_2006 ''13-2024'' = None
   \<and> Parse_01_2006 ''01/2024'' = None \<and> Parse_01_2006 ''01-2024 '' = None
   \<and> Parse_01_2006 ''ab-2024'' = None
   \<and> format_MM_YYYY 2024 January = ''01-2024''
   \<and> Service_Create uuid_36 stub (create_ok\<lparr>in_StartDate := ''2024-01-01''\<rparr>) stubRepo_zero
       = (Inl ErrInvalidStartDate, stubRepo_zero)
   \<and> Service_Update uuid_36 stub 1 (create_ok\<lparr>in_StartDate := ''2024-01-01''\<rparr>) stubRepo_zero
       = (Some ErrInvalidStartDate, stubRepo_zero)
   \<and> Service_Create uuid_36 stub (create_ok\<lparr>in_EndDate := Some ''2024-01-01''\<rparr>) stubRepo_zero
       = (Inl ErrInvalidEndDate, stubRepo_zero)
   \<and> Service_Update uuid_36 stub 1 (create_ok\<lparr>in_EndDate := Some ''2024-01-01''\<rparr>) stubRepo_zero
       = (Some ErrInvalidEndDate, stubRepo_zero)
   \<and> Service_Sum uuid_36 stub (sum_ok\<lparr>flt_From := ''2024-01-01''\<rparr>) stubRepo_zero
       = (Inl ErrInvalidStartDate, stubRepo_zero)
   \<and> Service_Sum uuid_36 stub (sum_ok\<lparr>flt_To := ''2024-02-01''\<rparr>) stubRepo_zero
       = (Inl ErrInvalidEndDate, stubRepo_zero)"
proof -
  have fmt: "format_MM_YYYY 2024 January = ''01-2024''"
    by code_simp
  note at_start = C2_month_format [where s = "''2024-01-01''" and y = 2024 and m = January
      and d = "create_ok\<lparr>in_StartDate := ''2024-01-01''\<rparr>" and uuid_Parse = uuid_36
      and repo = stub and st = stubRepo_zero and i = 1 and e = "''2024-01-01''"
      and q = "sum_ok\<lparr>flt_From := ''2024-01-01''\<rparr>"]
  note at_end = C2_month_format [where s = "''1-2024''" and y = 2024 and m = January
      and d = "create_ok\<lparr>in_EndDate := Some ''2024-01-01''\<rparr>" and uuid_Parse = uuid_36
      and repo = stub and st = stubRepo_zero and i = 1 and e = "''2024-01-01''"
      and q = "sum_ok\<lparr>flt_To := ''2024-02-01''\<rparr>"]
  note other = C2_month_format [where y = 2024 and m = January
      and d = create_ok and uuid_Parse = uuid_36
      and repo = stub and st = stubRepo_zero and i = 1 and e = "''2024-01-01''"
      and q = sum_ok]
  have parsed: "Parse_01_2006 ''01-2024'' = Some (firstOfMonth 2024 January)"
    using at_start by (simp add: fmt)
  have fields: "year (the (Parse_01_2006 ''02-2024'')) = 2024"
    "Month_int (month (the (Parse_01_2006 ''02-2024''))) = 2"
    "day (the (Parse_01_2006 ''02-2024'')) = 1"
    "nsec (the (Parse_01_2006 ''02-2024'')) = 0"
    using other [where s = "''02-2024''"]
    by (auto simp: service_examples yearOf_def)
  have rejected: "Parse_01_2006 ''2024-01-01'' = None" "Parse_01_2006 ''1-2024'' = None"
    "Parse_01_2006 ''01-24'' = None" "Parse_01_2006 ''13-2024'' = None"
    "Parse_01_2006 ''01/2024'' = None" "Parse_01_2006 ''01-2024 '' = None"
    "Parse_01_2006 ''ab-2024'' = None"
    using at_start at_end other [where s = "''01-24''"] other [where s = "''13-2024''"]
      other [where s = "''01/2024''"] other [where s = "''01-2024 ''"]
      other [where s = "''ab-2024''"]
    by (simp_all add: service_examples)
  have start: "Service_Create uuid_36 stub (create_ok\<lparr>in_StartDate := ''2024-01-01''\<rparr>) stubRepo_zero
       = (Inl ErrInvalidStartDate, stubRepo_zero)"
    "Service_Update uuid_36 stub 1 (create_ok\<lparr>in_StartDate := ''2024-01-01''\<rparr>) stubRepo_zero
       = (Some ErrInvalidStartDate, stubRepo_zero)"
    using at_start by (simp_all add: service_examples)
  have endd: "Service_Create uuid_36 stub (create_ok\<lparr>in_EndDate := Some ''2024-01-01''\<rparr>) stubRepo_zero
       = (Inl ErrInvalidEndDate, stubRepo_zero)"
    "Service_Update uuid_36 stub 1 (create_ok\<lparr>in_EndDate := Some ''2024-01-01''\<rparr>) stubRepo_zero
       = (Some ErrInvalidEndDate, stubRepo_zero)"
    using at_end by (simp_all add: service_examples)
  have sums: "Service_Sum uuid_36 stub (sum_ok\<lparr>flt_From := ''2024-01-01''\<rparr>) stubRepo_zero
       = (Inl ErrInvalidStartDate, stubRepo_zero)"
    "Service_Sum uuid_36 stub (sum_ok\<lparr>flt_To := ''2024-02-01''\<rparr>) stubRepo_zero
       = (Inl ErrInvalidEndDate, stubRepo_zero)"
    using at_start at_end by (simp_all add: service_examples)
  from fmt parsed fields rejected start endd sums show ?thesis
    by (intro conjI)
qed

subsection \<open>The result of a method is the first check that fails\<close>

text \<open>
  What the repository returns is never one of the validation errors: its errors are
  passed on as they are or reported as \<^verbatim>\<open>ErrSubscriptionNotFound\<close>.
\<close>

lemma Create_call_not_validation:
  "fst (Create_call repo sub st) = Inl e \<Longrightarrow> \<not> validation_error e"
  by (auto simp: Create_call_def split: prod.splits sum.splits)

lemma Update_call_not_validation:
  "fst (Update_call repo sub st) = Some e \<Longrightarrow> \<not> validation_error e"
  by (auto simp: Update_call_def split: prod.splits option.splits if_splits)

lemma Sum_call_not_validation:
  "fst (Sum_call repo f st) = Inl e \<Longrightarrow> \<not> validation_error e"
  by (auto simp: Sum_call_def split: prod.splits sum.splits)

lemma first_failure_subscription:
  "first_failure (subscription_checks uuid_Parse d) =
     (if invalidServiceName (in_ServiceName d) then Some ErrInvalidServiceName
      else if invalidPrice (in_Price d) then Some ErrInvalidPrice
      else if \<not> uuid_Parse (in_UserID d) then Some ErrInvalidUserID
      else if invalidMonth (in_StartDate d) then Some ErrInvalidStartDate
      else if invalidEndDate (in_StartDate d) (in_EndDate d) then Some ErrInvalidEndDate
      else None)"
  by (simp add: subscription_checks_def)

lemma first_failure_query:
  "first_failure (query_checks uuid_Parse q) =
     (if invalidServiceName (flt_ServiceName q) then Some ErrInvalidServiceName
      else if \<not> uuid_Parse (flt_UserID q) then Some ErrInvalidUserID
      else if invalidMonth (flt_From q) then Some ErrInvalidStartDate
      else if invalidMonth (flt_To q) then Some ErrInvalidEndDate
      else if Before (canonicalMonth (flt_To q)) (canonicalMonth (flt_From q))
      then Some ErrInvalidEndDate
      else None)"
  by (simp add: query_checks_def)

lemma parseEndDate_checked:
  "\<not> invalidMonth rawStart \<Longrightarrow>
   parseEndDate rawEnd (canonicalMonth rawStart) =
     (if invalidEndDate rawStart rawEnd then Inl ErrInvalidEndDate
      else Inr (canonicalEnd rawEnd))"
  by (simp add: parseEndDate_spec invalidEndDate_def invalidMonth_def canonicalEnd_def
      split: option.split)

lemma Service_Create_checks:
  "Service_Create uuid_Parse repo d st =
     (case first_failure (subscription_checks uuid_Parse d) of
        Some e \<Rightarrow> (Inl e, st)
      | None \<Rightarrow> Create_call repo (normalized d 0 (canonicalEnd (in_EndDate d))) st)"
  by (simp add: Service_Create_spec first_failure_subscription parseEndDate_checked)

lemma Service_Update_checks:
  "Service_Update uuid_Parse repo i d st =
     (case first_failure ((i \<le> 0, ErrInvalidID) # subscription_checks uuid_Parse d) of
        Some e \<Rightarrow> (Some e, st)
      | None \<Rightarrow> Update_call repo (normalized d i (canonicalEnd (in_EndDate d))) st)"
  by (simp add: Service_Update_spec first_failure_subscription parseEndDate_checked)

lemma Service_Sum_checks:
  "Service_Sum uuid_Parse repo q st =
     (case first_failure (query_checks uuid_Parse q) of
        Some e \<Rightarrow> (Inl e, st)
      | None \<Rightarrow> Sum_call repo (normalizedQuery q) st)"
  by (simp add: Service_Sum_spec first_failure_query)

text \<open>
  C3 (amended).  Create returns the error of the first check that fails in the order
  service name, price, user id, start date, end date, and calls the repository when
  none fails.  Update does the same after one more check that comes first: an
  identifier that is not positive is reported as \<^verbatim>\<open>ErrInvalidID\<close> whatever the fields
  are.  Sum returns the error of the first check that fails in the order service name,
  user id, from, to, and then \<^verbatim>\<open>to\<close> before \<^verbatim>\<open>from\<close>.  The result carries one
  error, that of the first failure; later fields are not looked at.
\<close>

theorem C3_first_failing_check:
  "Service_Create uuid_Parse repo d st =
     (case first_failure (subscription_checks uuid_Parse d) of
        Some e \<Rightarrow> (Inl e, st)
      | None \<Rightarrow> Create_call repo (normalized d 0 (canonicalEnd (in_EndDate d))) st)
   \<and> Service_Update uuid_Parse repo i d st =
     (case first_failure ((i \<le> 0, ErrInvalidID) # subscription_checks uuid_Parse d) of
        Some e \<Rightarrow> (Some e, st)
      | None \<Rightarrow> Update_call repo (normalized d i (canonicalEnd (in_EndDate d))) st)
   \<and> Service_Sum uuid_Parse repo q st =
     (case first_failure (query_checks uuid_Parse q) of
        Some e \<Rightarrow> (Inl e, st)
      | None \<Rightarrow> Sum_call repo (normalizedQuery q) st)"
  by (intro conjI) (rule Service_Create_checks Service_Update_checks Service_Sum_checks)+

lemmas service_eval =
  Service_Create_spec Service_Update_spec Service_Sum_spec parseEndDate_spec
  Create_call_def Update_call_def Sum_call_def stub_def stubRepo_zero_def normalized_def
  normalizedQuery_def canonicalEnd_def two_invalid_def created_def
  subscription_checks_def query_checks_def invalidEndDate_def Before_firstOfMonth
  service_examples

theorem C3_witness:
  "first_failure (subscription_checks uuid_36 two_invalid) = Some ErrInvalidServiceName
   \<and> Service_Create uuid_36 stub two_invalid stubRepo_zero
       = (Inl ErrInvalidServiceName, stubRepo_zero)
   \<and> Service_Update uuid_36 stub 1 two_invalid stubRepo_zero
       = (Some ErrInvalidServiceName, stubRepo_zero)
   \<and> Service_Sum uuid_36 stub (sum_ok\<lparr>flt_UserID := ''bad'', flt_From := ''2024-01-01''\<rparr>)
         stubRepo_zero
       = (Inl ErrInvalidUserID, stubRepo_zero)
   \<and> first_failure (subscription_checks uuid_36 create_ok) = None
   \<and> fst (Service_Create uuid_36 stub create_ok (stubRepo_zero\<lparr>createID := 10\<rparr>))
       = Inr created
   \<and> first_failure (query_checks uuid_36 sum_ok) = None
   \<and> fst (Service_Sum uuid_36 stub sum_ok (stubRepo_zero\<lparr>sumTotal := 1500\<rparr>)) = Inr 1500"
proof -
  have failing:
    "first_failure (subscription_checks uuid_36 two_invalid) = Some ErrInvalidServiceName
     \<and> Service_Create uuid_36 stub two_invalid stubRepo_zero
         = (Inl ErrInvalidServiceName, stubRepo_zero)
     \<and> Service_Update uuid_36 stub 1 two_invalid stubRepo_zero
         = (Some ErrInvalidServiceName, stubRepo_zero)
     \<and> Service_Sum uuid_36 stub (sum_ok\<lparr>flt_UserID := ''bad'', flt_From := ''2024-01-01''\<rparr>)
           stubRepo_zero
         = (Inl ErrInvalidUserID, stubRepo_zero)"
    using C3_first_failing_check [where uuid_Parse = uuid_36 and repo = stub
        and d = two_invalid and st = stubRepo_zero and i = 1
        and q = "sum_ok\<lparr>flt_UserID := ''bad'', flt_From := ''2024-01-01''\<rparr>"]
    by (simp add: subscription_checks_def query_checks_def two_invalid_def service_examples
        uuid_36_def)
  have none: "first_failure (subscription_checks uuid_36 create_ok) = None"
    "first_failure (query_checks uuid_36 sum_ok) = None"
    by (simp_all add: subscription_checks_def query_checks_def invalidEndDate_def
        Before_firstOfMonth service_examples)
  have passing:
    "fst (Service_Create uuid_36 stub create_ok (stubRepo_zero\<lparr>createID := 10\<rparr>))
       = Inr created"
    "fst (Service_Sum uuid_36 stub sum_ok (stubRepo_zero\<lparr>sumTotal := 1500\<rparr>)) = Inr 1500"
    using C3_first_failing_check [where uuid_Parse = uuid_36 and repo = stub
        and d = create_ok and st = "stubRepo_zero\<lparr>createID := 10\<rparr>" and i = 1
        and q = sum_ok]
      C3_first_failing_check [where uuid_Parse = uuid_36 and repo = stub
        and d = create_ok and st = "stubRepo_zero\<lparr>sumTotal := 1500\<rparr>" and i = 1
        and q = sum_ok]
    unfolding none
    by (simp_all add: Create_call_def Sum_call_def stub_def stubRepo_zero_def normalized_def
        normalizedQuery_def canonicalEnd_def created_def create_ok_def sum_ok_def
        TrimSpace_examples canonical_examples)
  from failing none passing show ?thesis
    by simp
qed

text \<open>
  The claim as it was stated gives Update the order of Create.  For an input with a
  blank service name and the price 0 the first invalid field in that order is the
  service name; with the identifier 0, Update returns \<^verbatim>\<open>ErrInvalidID\<close> instead.
\<close>

theorem C3_counterexample:
  "invalidServiceName (in_ServiceName two_invalid)
   \<and> invalidPrice (in_Price two_invalid)
   \<and> first_failure (subscription_checks uuid_36 two_invalid) = Some ErrInvalidServiceName
   \<and> Service_Update uuid_36 stub 0 two_invalid stubRepo_zero
       = (Some ErrInvalidID, stubRepo_zero)
   \<and> ErrInvalidID \<noteq> ErrInvalidServiceName"
  by (simp add: Service_Update_def subscription_checks_def two_invalid_def service_examples)

text \<open>
  C4.  For every start, an absent end date and an empty one give no end date; an end
  date of the format whose month lies before the start fails with
  \<^verbatim>\<open>ErrInvalidEndDate\<close>; an end date of the format whose month is the start is
  accepted.  In Create and Update, when the fields before the end date are valid (and,
  for Update, the identifier is positive): with an absent or empty end date the model
  sent to the repository has no end date; with an end month before the start month the
  method returns \<^verbatim>\<open>ErrInvalidEndDate\<close>; with an end month equal to the start month the
  model sent to the repository has that month as its end date.
\<close>

theorem C4_optional_end_date:
  "parseEndDate None start = Inr None
   \<and> parseEndDate (Some []) start = Inr None
   \<and> (is_MM_YYYY e \<and> Before (canonicalMonth e) start \<longrightarrow>
        parseEndDate (Some e) start = Inl ErrInvalidEndDate)
   \<and> (is_MM_YYYY e \<and> canonicalMonth e = start \<longrightarrow>
        parseEndDate (Some e) start = Inr (Some start))
   \<and> (\<not> invalidServiceName (in_ServiceName d) \<and> \<not> invalidPrice (in_Price d)
        \<and> uuid_Parse (in_UserID d) \<and> is_MM_YYYY (in_StartDate d) \<longrightarrow>
        (in_EndDate d = None \<or> in_EndDate d = Some [] \<longrightarrow>
           Service_Create uuid_Parse repo d st = Create_call repo (normalized d 0 None) st
           \<and> (0 < i \<longrightarrow>
                Service_Update uuid_Parse repo i d st
                  = Update_call repo (normalized d i None) st))
        \<and> (in_EndDate d = Some e \<and> is_MM_YYYY e
             \<and> Before (canonicalMonth e) (canonicalMonth (in_StartDate d)) \<longrightarrow>
           Service_Create uuid_Parse repo d st = (Inl ErrInvalidEndDate, st)
           \<and> (0 < i \<longrightarrow>
                Service_Update uuid_Parse repo i d st = (Some ErrInvalidEndDate, st)))
        \<and> (in_EndDate d = Some e \<and> is_MM_YYYY e
             \<and> canonicalMonth e = canonicalMonth (in_StartDate d) \<longrightarrow>
           Service_Create uuid_Parse repo d st
             = Create_call repo (normalized d 0 (Some (canonicalMonth (in_StartDate d)))) st
           \<and> (0 < i \<longrightarrow>
                Service_Update uuid_Parse repo i d st
                  = Update_call repo
                      (normalized d i (Some (canonicalMonth (in_StartDate d)))) st)))"
proof -
  have a: "parseEndDate None start = Inr None" "parseEndDate (Some []) start = Inr None"
    by (simp_all add: parseEndDate_spec)
  have b: "parseEndDate (Some e) start = Inl ErrInvalidEndDate"
    if "is_MM_YYYY e \<and> Before (canonicalMonth e) start"
    using that by (auto simp: parseEndDate_spec)
  have c: "parseEndDate (Some e) start = Inr (Some start)"
    if "is_MM_YYYY e \<and> canonicalMonth e = start"
    using that by (auto simp: parseEndDate_spec Before_irrefl)
  have d: "(in_EndDate d = None \<or> in_EndDate d = Some [] \<longrightarrow>
           Service_Create uuid_Parse repo d st = Create_call repo (normalized d 0 None) st
           \<and> (0 < i \<longrightarrow>
                Service_Update uuid_Parse repo i d st
                  = Update_call repo (normalized d i None) st))
        \<and> (in_EndDate d = Some e \<and> is_MM_YYYY e
             \<and> Before (canonicalMonth e) (canonicalMonth (in_StartDate d)) \<longrightarrow>
           Service_Create uuid_Parse repo d st = (Inl ErrInvalidEndDate, st)
           \<and> (0 < i \<longrightarrow>
                Service_Update uuid_Parse repo i d st = (Some ErrInvalidEndDate, st)))
        \<and> (in_EndDate d = Some e \<and> is_MM_YYYY e
             \<and> canonicalMonth e = canonicalMonth (in_StartDate d) \<longrightarrow>
           Service_Create uuid_Parse repo d st
             = Create_call repo (normalized d 0 (Some (canonicalMonth (in_StartDate d)))) st
           \<and> (0 < i \<longrightarrow>
                Service_Update uuid_Parse repo i d st
                  = Update_call repo
                      (normalized d i (Some (canonicalMonth (in_StartDate d)))) st))"
    if "\<not> invalidServiceName (in_ServiceName d) \<and> \<not> invalidPrice (in_Price d)
        \<and> uuid_Parse (in_UserID d) \<and> is_MM_YYYY (in_StartDate d)"
    using that
    by (auto simp: Service_Create_spec Service_Update_spec parseEndDate_spec invalidMonth_def
        Before_irrefl)
  from a b c d show ?thesis by blast
qed

theorem C4_witness:
  "parseEndDate None (firstOfMonth 2024 January) = Inr None
   \<and> parseEndDate (Some []) (firstOfMonth 2024 January) = Inr None
   \<and> parseEndDate (Some ''01-2023'') (firstOfMonth 2024 January) = Inl ErrInvalidEndDate
   \<and> parseEndDate (Some ''01-2024'') (firstOfMonth 2024 January)
       = Inr (Some (firstOfMonth 2024 January))
   \<and> Service_Create uuid_36 stub (create_ok\<lparr>in_EndDate := Some ''01-2023''\<rparr>) stubRepo_zero
       = (Inl ErrInvalidEndDate, stubRepo_zero)
   \<and> Service_Update uuid_36 stub 1 (create_ok\<lparr>in_EndDate := Some ''01-2023''\<rparr>) stubRepo_zero
       = (Some ErrInvalidEndDate, stubRepo_zero)
   \<and> fst (Service_Create uuid_36 stub (create_ok\<lparr>in_EndDate := Some ''''\<rparr>)
            (stubRepo_zero\<lparr>createID := 10\<rparr>))
       = Inr (created\<lparr>EndDate := None\<rparr>)
   \<and> fst (Service_Create uuid_36 stub (create_ok\<lparr>in_EndDate := None\<rparr>)
            (stubRepo_zero\<lparr>createID := 10\<rparr>))
       = Inr (created\<lparr>EndDate := None\<rparr>)
   \<and> fst (Service_Create uuid_36 stub (create_ok\<lparr>in_EndDate := Some ''01-2024''\<rparr>)
            (stubRepo_zero\<lparr>createID := 10\<rparr>))
       = Inr (created\<lparr>EndDate := Some (firstOfMonth 2024 January)\<rparr>)
   \<and> updateSub (snd (Service_Update uuid_36 stub 1 (create_ok\<lparr>in_EndDate := Some ''''\<rparr>)
            (stubRepo_zero\<lparr>createID := 10\<rparr>)))
       = Some (created\<lparr>ID := 1, EndDate := None\<rparr>)
   \<and> updateSub (snd (Service_Update uuid_36 stub 1 (create_ok\<lparr>in_EndDate := Some ''01-2024''\<rparr>)
            (stubRepo_zero\<lparr>createID := 10\<rparr>)))
       = Some (created\<lparr>ID := 1, EndDate := Some (firstOfMonth 2024 January)\<rparr>)"
  using
    C4_optional_end_date [where start = "firstOfMonth 2024 January" and e = "''01-2023''"
      and d = "create_ok\<lparr>in_EndDate := Some ''01-2023''\<rparr>" and uuid_Parse = uuid_36
      and repo = stub and st = stubRepo_zero and i = 1]
    C4_optional_end_date [where start = "firstOfMonth 2024 January" and e = "''01-2024''"
      and d = "create_ok\<lparr>in_EndDate := Some ''01-2024''\<rparr>" and uuid_Parse = uuid_36
      and repo = stub and st = "stubRepo_zero\<lparr>createID := 10\<rparr>" and i = 1]
    C4_optional_end_date [where start = "firstOfMonth 2024 January" and e = "''01-2024''"
      and d = "create_ok\<lparr>in_EndDate := Some ''''\<rparr>" and uuid_Parse = uuid_36
      and repo = stub and st = "stubRepo_zero\<lparr>createID := 10\<rparr>" and i = 1]
    C4_optional_end_date [where start = "firstOfMonth 2024 January" and e = "''01-2024''"
      and d = "create_ok\<lparr>in_EndDate := None\<rparr>" and uuid_Parse = uuid_36
      and repo = stub and st = "stubRepo_zero\<lparr>createID := 10\<rparr>" and i = 1]
  by (simp add: Create_call_def Update_call_def stub_def stubRepo_zero_def normalized_def
      created_def Before_firstOfMonth service_examples)

text \<open>
  C5.  For every filter of Sum whose service name and user id are valid and whose
  \<^verbatim>\<open>From\<close> and \<^verbatim>\<open>To\<close> are of the format: \<^verbatim>\<open>To\<close> is before \<^verbatim>\<open>From\<close> exactly when
  its (year, month) pair is the smaller one; in that case Sum returns
  \<^verbatim>\<open>ErrInvalidEndDate\<close>; otherwise the validation succeeds and Sum hands the canonical
  query to the repository.
\<close>

theorem C5_query_interval:
  "\<not> invalidServiceName (flt_ServiceName q) \<and> uuid_Parse (flt_UserID q)
   \<and> is_MM_YYYY (flt_From q) \<and> is_MM_YYYY (flt_To q) \<longrightarrow>
     (Before (canonicalMonth (flt_To q)) (canonicalMonth (flt_From q))
        \<longleftrightarrow> yearOf (flt_To q) < yearOf (flt_From q)
            \<or> (yearOf (flt_To q) = yearOf (flt_From q)
                \<and> monthOf (flt_To q) < monthOf (flt_From q)))
     \<and> (Before (canonicalMonth (flt_To q)) (canonicalMonth (flt_From q)) \<longrightarrow>
          Service_Sum uuid_Parse repo q st = (Inl ErrInvalidEndDate, st))
     \<and> (\<not> Before (canonicalMonth (flt_To q)) (canonicalMonth (flt_From q)) \<longrightarrow>
          Service_Sum uuid_Parse repo q st = Sum_call repo (normalizedQuery q) st)"
  using Before_canonicalMonth [of "flt_To q" "flt_From q"]
  by (simp add: Service_Sum_spec invalidMonth_def)

theorem C5_witness:
  "Service_Sum uuid_36 stub (sum_ok\<lparr>flt_From := ''02-2024'', flt_To := ''01-2024''\<rparr>)
       stubRepo_zero
     = (Inl ErrInvalidEndDate, stubRepo_zero)
   \<and> Service_Sum uuid_36 stub (sum_ok\<lparr>flt_To := ''01-2023''\<rparr>) stubRepo_zero
     = (Inl ErrInvalidEndDate, stubRepo_zero)
   \<and> fst (Service_Sum uuid_36 stub sum_ok (stubRepo_zero\<lparr>sumTotal := 1500\<rparr>)) = Inr 1500
   \<and> sumFilter (snd (Service_Sum uuid_36 stub sum_ok (stubRepo_zero\<lparr>sumTotal := 1500\<rparr>)))
     = Some \<lparr>sum_UserID = test_user, sum_ServiceName = ''Netflix'',
             From = firstOfMonth 2024 January, To = firstOfMonth 2024 February\<rparr>
   \<and> fst (Service_Sum uuid_36 stub (sum_ok\<lparr>flt_To := ''01-2024''\<rparr>)
            (stubRepo_zero\<lparr>sumTotal := 1500\<rparr>)) = Inr 1500"
  using
    C5_query_interval [where q = "sum_ok\<lparr>flt_From := ''02-2024'', flt_To := ''01-2024''\<rparr>"
      and uuid_Parse = uuid_36 and repo = stub and st = stubRepo_zero]
    C5_query_interval [where q = "sum_ok\<lparr>flt_To := ''01-2023''\<rparr>"
      and uuid_Parse = uuid_36 and repo = stub and st = stubRepo_zero]
    C5_query_interval [where q = sum_ok
      and uuid_Parse = uuid_36 and repo = stub and st = "stubRepo_zero\<lparr>sumTotal := 1500\<rparr>"]
    C5_query_interval [where q = "sum_ok\<lparr>flt_To := ''01-2024''\<rparr>"
      and uuid_Parse = uuid_36 and repo = stub and st = "stubRepo_zero\<lparr>sumTotal := 1500\<rparr>"]
  by (simp add: Sum_call_def stub_def stubRepo_zero_def normalizedQuery_def
      Before_firstOfMonth yearOf_def service_examples)

subsection \<open>A validation error comes from a check\<close>

lemma validation_first_failure:
  "first_failure (subscription_checks uuid_Parse d) = Some e \<Longrightarrow> validation_error e"
  by (auto simp: first_failure_subscription split: if_splits)

lemma validation_first_failure_query:
  "first_failure (query_checks uuid_Parse q) = Some e \<Longrightarrow> validation_error e"
  by (auto simp: first_failure_query split: if_splits)

lemma Service_Create_rejects:
  assumes "validation_error e" "fst (Service_Create uuid_Parse repo d st) = Inl e"
  shows "first_failure (subscription_checks uuid_Parse d) = Some e"
proof (cases "first_failure (subscription_checks uuid_Parse d)")
  case None
  with assms show ?thesis
    using Create_call_not_validation [of repo _ st e] by (simp add: Service_Create_checks)
next
  case (Some x)
  with assms show ?thesis by (simp add: Service_Create_checks)
qed

lemma Service_Update_rejects:
  assumes "validation_error e" "fst (Service_Update uuid_Parse repo i d st) = Some e"
  shows "first_failure ((i \<le> 0, ErrInvalidID) # subscription_checks uuid_Parse d) = Some e"
proof (cases "first_failure ((i \<le> 0, ErrInvalidID) # subscription_checks uuid_Parse d)")
  case None
  with assms show ?thesis
    using Update_call_not_validation [of repo _ st e] by (simp add: Service_Update_checks)
next
  case (Some x)
  with assms show ?thesis by (simp add: Service_Update_checks)
qed

lemma Service_Sum_rejects:
  assumes "validation_error e" "fst (Service_Sum uuid_Parse repo q st) = Inl e"
  shows "first_failure (query_checks uuid_Parse q) = Some e"
proof (cases "first_failure (query_checks uuid_Parse q)")
  case None
  with assms show ?thesis
    using Sum_call_not_validation [of repo _ st e] by (simp add: Service_Sum_checks)
next
  case (Some x)
  with assms show ?thesis by (simp add: Service_Sum_checks)
qed

lemma Service_Get_rejects:
  "validation_error e \<Longrightarrow> fst (Service_Get repo i st) = Inl e \<Longrightarrow> i \<le> 0 \<and> e = ErrInvalidID"
  by (auto simp: Service_Get_def split: if_splits prod.splits sum.splits)

lemma Service_Delete_rejects:
  "validation_error e \<Longrightarrow> fst (Service_Delete repo i st) = Some e \<Longrightarrow> i \<le> 0 \<and> e = ErrInvalidID"
  by (auto simp: Service_Delete_def split: if_splits prod.splits option.splits)

lemma Service_List_rejects:
  "validation_error e \<Longrightarrow> fst (Service_List uuid_Parse repo u st) = Inl e \<Longrightarrow>
   \<not> uuid_Parse u \<and> e = ErrInvalidUserID"
  by (auto simp: Service_List_def split: if_splits prod.splits sum.splits)

text \<open>
  C9.  For every identifier that is not positive, Get, Update and Delete return
  \<^verbatim>\<open>ErrInvalidID\<close> and the state of the repository as it was.  Whenever one of the six
  methods returns a validation error, it returns the state of the repository unchanged,
  and it returns the same error with any other repository in any other state: the
  outcome does not depend on the repository, no method of which has been called.
\<close>

theorem C9_validation_before_repository:
  "(i \<le> 0 \<longrightarrow>
      Service_Get repo i st = (Inl ErrInvalidID, st)
      \<and> Service_Update uuid_Parse repo i d st = (Some ErrInvalidID, st)
      \<and> Service_Delete repo i st = (Some ErrInvalidID, st))
   \<and> (validation_error e \<longrightarrow>
        (fst (Service_Create uuid_Parse repo d st) = Inl e \<longrightarrow>
           Service_Create uuid_Parse repo d st = (Inl e, st)
           \<and> Service_Create uuid_Parse repo' d st' = (Inl e, st'))
        \<and> (fst (Service_Update uuid_Parse repo i d st) = Some e \<longrightarrow>
           Service_Update uuid_Parse repo i d st = (Some e, st)
           \<and> Service_Update uuid_Parse repo' i d st' = (Some e, st'))
        \<and> (fst (Service_Delete repo i st) = Some e \<longrightarrow>
           Service_Delete repo i st = (Some e, st)
           \<and> Service_Delete repo' i st' = (Some e, st'))
        \<and> (fst (Service_Get repo i st) = Inl e \<longrightarrow>
           Service_Get repo i st = (Inl e, st)
           \<and> Service_Get repo' i st' = (Inl e, st'))
        \<and> (fst (Service_List uuid_Parse repo u st) = Inl e \<longrightarrow>
           Service_List uuid_Parse repo u st = (Inl e, st)
           \<and> Service_List uuid_Parse repo' u st' = (Inl e, st'))
        \<and> (fst (Service_Sum uuid_Parse repo q st) = Inl e \<longrightarrow>
           Service_Sum uuid_Parse repo q st = (Inl e, st)
           \<and> Service_Sum uuid_Parse repo' q st' = (Inl e, st')))"
proof (intro conjI impI)
  assume "i \<le> 0"
  then show "Service_Get repo i st = (Inl ErrInvalidID, st)"
    and "Service_Update uuid_Parse repo i d st = (Some ErrInvalidID, st)"
    and "Service_Delete repo i st = (Some ErrInvalidID, st)"
    by (simp_all add: Service_Get_def Service_Update_def Service_Delete_def)
next
  assume "validation_error e" "fst (Service_Create uuid_Parse repo d st) = Inl e"
  then have "first_failure (subscription_checks uuid_Parse d) = Some e"
    by (rule Service_Create_rejects)
  then show "Service_Create uuid_Parse repo d st = (Inl e, st)"
    and "Service_Create uuid_Parse repo' d st' = (Inl e, st')"
    by (simp_all add: Service_Create_checks)
next
  assume "validation_error e" "fst (Service_Update uuid_Parse repo i d st) = Some e"
  then have "first_failure ((i \<le> 0, ErrInvalidID) # subscription_checks uuid_Parse d) = Some e"
    by (rule Service_Update_rejects)
  then show "Service_Update uuid_Parse repo i d st = (Some e, st)"
    and "Service_Update uuid_Parse repo' i d st' = (Some e, st')"
    by (simp_all add: Service_Update_checks)
next
  assume "validation_error e" "fst (Service_Delete repo i st) = Some e"
  then have "i \<le> 0 \<and> e = ErrInvalidID"
    by (rule Service_Delete_rejects)
  then show "Service_Delete repo i st = (Some e, st)"
    and "Service_Delete repo' i st' = (Some e, st')"
    by (simp_all add: Service_Delete_def)
next
  assume "validation_error e" "fst (Service_Get repo i st) = Inl e"
  then have "i \<le> 0 \<and> e = ErrInvalidID"
    by (rule Service_Get_rejects)
  then show "Service_Get repo i st = (Inl e, st)"
    and "Service_Get repo' i st' = (Inl e, st')"
    by (simp_all add: Service_Get_def)
next
  assume "validation_error e" "fst (Service_List uuid_Parse repo u st) = Inl e"
  then have "\<not> uuid_Parse u \<and> e = ErrInvalidUserID"
    by (rule Service_List_rejects)
  then show "Service_List uuid_Parse repo u st = (Inl e, st)"
    and "Service_List uuid_Parse repo' u st' = (Inl e, st')"
    by (simp_all add: Service_List_def)
next
  assume "validation_error e" "fst (Service_Sum uuid_Parse repo q st) = Inl e"
  then have "first_failure (query_checks uuid_Parse q) = Some e"
    by (rule Service_Sum_rejects)
  then show "Service_Sum uuid_Parse repo q st = (Inl e, st)"
    and "Service_Sum uuid_Parse repo' q st' = (Inl e, st')"
    by (simp_all add: Service_Sum_checks)
qed

theorem C9_witness:
  "Service_Get stub 0 stubRepo_zero = (Inl ErrInvalidID, stubRepo_zero)
   \<and> Service_Update uuid_36 stub 0 create_ok stubRepo_zero = (Some ErrInvalidID, stubRepo_zero)
   \<and> Service_Delete stub (- 1) stubRepo_zero = (Some ErrInvalidID, stubRepo_zero)
   \<and> validation_error ErrInvalidPrice
   \<and> Service_Create uuid_36 stub (create_ok\<lparr>in_Price := 0\<rparr>) stubRepo_zero
       = (Inl ErrInvalidPrice, stubRepo_zero)
   \<and> Service_Create uuid_36 stub (create_ok\<lparr>in_Price := 0\<rparr>)
         (stubRepo_zero\<lparr>createErr := Some ErrNoRows\<rparr>)
       = (Inl ErrInvalidPrice, stubRepo_zero\<lparr>createErr := Some ErrNoRows\<rparr>)
   \<and> createSub (snd (Service_Create uuid_36 stub (create_ok\<lparr>in_Price := 0\<rparr>) stubRepo_zero))
       = None
   \<and> createSub (snd (Service_Create uuid_36 stub create_ok stubRepo_zero)) \<noteq> None
   \<and> Service_Update uuid_36 stub 1 (create_ok\<lparr>in_Price := 0\<rparr>)
         (stubRepo_zero\<lparr>createErr := Some ErrNoRows\<rparr>)
       = (Some ErrInvalidPrice, stubRepo_zero\<lparr>createErr := Some ErrNoRows\<rparr>)
   \<and> Service_List uuid_36 stub ''bad-uuid'' stubRepo_zero
       = (Inl ErrInvalidUserID, stubRepo_zero)
   \<and> Service_Sum uuid_36 stub (sum_ok\<lparr>flt_To := ''01-2023''\<rparr>) stubRepo_zero
       = (Inl ErrInvalidEndDate, stubRepo_zero)"
proof -
  note ids = C9_validation_before_repository [where i = 0 and repo = stub
      and st = stubRepo_zero and uuid_Parse = uuid_36 and d = create_ok
      and e = ErrInvalidID and repo' = stub and st' = stubRepo_zero and u = "''bad-uuid''"
      and q = sum_ok]
  note neg = C9_validation_before_repository [where i = "- 1" and repo = stub
      and st = stubRepo_zero and uuid_Parse = uuid_36 and d = create_ok
      and e = ErrInvalidID and repo' = stub and st' = stubRepo_zero and u = "''bad-uuid''"
      and q = sum_ok]
  note price = C9_validation_before_repository [where i = 1 and repo = stub
      and st = stubRepo_zero and uuid_Parse = uuid_36 and d = "create_ok\<lparr>in_Price := 0\<rparr>"
      and e = ErrInvalidPrice and repo' = stub
      and st' = "stubRepo_zero\<lparr>createErr := Some ErrNoRows\<rparr>" and u = "''bad-uuid''"
      and q = sum_ok]
  have rejected: "fst (Service_Create uuid_36 stub (create_ok\<lparr>in_Price := 0\<rparr>) stubRepo_zero)
      = Inl ErrInvalidPrice"
    by (simp add: Service_Create_def service_examples)
  have called: "createSub (snd (Service_Create uuid_36 stub create_ok stubRepo_zero)) \<noteq> None"
    by (simp add: service_eval)
  have v: "validation_error ErrInvalidPrice"
    by simp
  have "(0::int) \<le> 0" and "(- 1::int) \<le> 0"
    by simp_all
  with ids neg have a: "Service_Get stub 0 stubRepo_zero = (Inl ErrInvalidID, stubRepo_zero)"
    and b: "Service_Update uuid_36 stub 0 create_ok stubRepo_zero
      = (Some ErrInvalidID, stubRepo_zero)"
    and c: "Service_Delete stub (- 1) stubRepo_zero = (Some ErrInvalidID, stubRepo_zero)"
    by blast+
  from price v rejected
  have d: "Service_Create uuid_36 stub (create_ok\<lparr>in_Price := 0\<rparr>) stubRepo_zero
       = (Inl ErrInvalidPrice, stubRepo_zero)"
    and e: "Service_Create uuid_36 stub (create_ok\<lparr>in_Price := 0\<rparr>)
         (stubRepo_zero\<lparr>createErr := Some ErrNoRows\<rparr>)
       = (Inl ErrInvalidPrice, stubRepo_zero\<lparr>createErr := Some ErrNoRows\<rparr>)"
    by blast+
  have f: "createSub (snd (Service_Create uuid_36 stub (create_ok\<lparr>in_Price := 0\<rparr>) stubRepo_zero))
       = None"
    unfolding d by (simp add: stubRepo_zero_def)
  have rejected_update:
    "fst (Service_Update uuid_36 stub 1 (create_ok\<lparr>in_Price := 0\<rparr>) stubRepo_zero)
      = Some ErrInvalidPrice"
    by (simp add: Service_Update_def service_examples)
  from price v rejected_update
  have g: "Service_Update uuid_36 stub 1 (create_ok\<lparr>in_Price := 0\<rparr>)
         (stubRepo_zero\<lparr>createErr := Some ErrNoRows\<rparr>)
       = (Some ErrInvalidPrice, stubRepo_zero\<lparr>createErr := Some ErrNoRows\<rparr>)"
    by blast
  note user = C9_validation_before_repository [where i = 1 and repo = stub
      and st = stubRepo_zero and uuid_Parse = uuid_36 and d = create_ok
      and e = ErrInvalidUserID and repo' = stub and st' = stubRepo_zero
      and u = "''bad-uuid''" and q = sum_ok]
  have "validation_error ErrInvalidUserID"
    and "fst (Service_List uuid_36 stub ''bad-uuid'' stubRepo_zero) = Inl ErrInvalidUserID"
    by (simp_all add: Service_List_def uuid_36_def)
  with user have h: "Service_List uuid_36 stub ''bad-uuid'' stubRepo_zero
       = (Inl ErrInvalidUserID, stubRepo_zero)"
    by blast
  note order = C9_validation_before_repository [where i = 1 and repo = stub
      and st = stubRepo_zero and uuid_Parse = uuid_36 and d = create_ok
      and e = ErrInvalidEndDate and repo' = stub and st' = stubRepo_zero
      and u = "''bad-uuid''" and q = "sum_ok\<lparr>flt_To := ''01-2023''\<rparr>"]
  have "validation_error ErrInvalidEndDate"
    and "fst (Service_Sum uuid_36 stub (sum_ok\<lparr>flt_To := ''01-2023''\<rparr>) stubRepo_zero)
      = Inl ErrInvalidEndDate"
    by (simp_all add: service_eval)
  with order have k: "Service_Sum uuid_36 stub (sum_ok\<lparr>flt_To := ''01-2023''\<rparr>) stubRepo_zero
       = (Inl ErrInvalidEndDate, stubRepo_zero)"
    by blast
  from a b c v d e f called g h k show ?thesis
    by (intro conjI)
qed

lemma Service_Create_succeeds:
  assumes "fst (Service_Create uuid_Parse repo d st) = Inr sub"
  shows "first_failure (subscription_checks uuid_Parse d) = None
    \<and> (\<exists>new_id. sub = normalized d new_id (canonicalEnd (in_EndDate d)))"
proof (cases "first_failure (subscription_checks uuid_Parse d)")
  case None
  with assms have "fst (Create_call repo (normalized d 0 (canonicalEnd (in_EndDate d))) st) = Inr sub"
    by (simp add: Service_Create_checks)
  then have "\<exists>new_id. sub = normalized d new_id (canonicalEnd (in_EndDate d))"
    by (auto simp: Create_call_def normalized_def split: prod.splits sum.splits)
  with None show ?thesis by simp
next
  case (Some x)
  with assms show ?thesis by (simp add: Service_Create_checks)
qed

text \<open>
  C10.  For every call of Create that succeeds, the subscription returned has the trimmed
  service name, the price and the user id of the input, a start date that is the first
  instant (day 1, 00:00:00) of the month the input's start date denotes, and an end date
  that is either absent, when the input has none or an empty one, or the first instant of
  the month the input's end date denotes.  Between first instants of months, before, after
  and equality are those of the (year, month) pairs.
\<close>

theorem C10_created_subscription_is_canonical:
  "(fst (Service_Create uuid_Parse repo d st) = Inr sub \<longrightarrow>
      ServiceName sub = TrimSpace (in_ServiceName d)
      \<and> Price sub = in_Price d
      \<and> UserID sub = in_UserID d
      \<and> is_MM_YYYY (in_StartDate d)
      \<and> StartDate sub = firstOfMonth (yearOf (in_StartDate d))
                           (Month_of (nat (monthOf (in_StartDate d))))
      \<and> day (StartDate sub) = 1 \<and> nsec (StartDate sub) = 0
      \<and> (case EndDate sub of
            None \<Rightarrow> in_EndDate d = None \<or> in_EndDate d = Some []
          | Some end_date \<Rightarrow>
              (\<exists>raw. in_EndDate d = Some raw \<and> is_MM_YYYY raw
                 \<and> end_date = firstOfMonth (yearOf raw) (Month_of (nat (monthOf raw)))
                 \<and> day end_date = 1 \<and> nsec end_date = 0)))
   \<and> (Before (firstOfMonth y m) (firstOfMonth y' m')
        \<longleftrightarrow> y < y' \<or> (y = y' \<and> Month_int m < Month_int m'))
   \<and> (After (firstOfMonth y m) (firstOfMonth y' m')
        \<longleftrightarrow> y' < y \<or> (y' = y \<and> Month_int m' < Month_int m))
   \<and> (firstOfMonth y m = firstOfMonth y' m' \<longleftrightarrow> y = y' \<and> m = m')"
proof (intro conjI impI)
  assume ok: "fst (Service_Create uuid_Parse repo d st) = Inr sub"
  from Service_Create_succeeds [OF ok] obtain new_id where
    checks: "first_failure (subscription_checks uuid_Parse d) = None"
    and sub: "sub = normalized d new_id (canonicalEnd (in_EndDate d))"
    by blast
  from checks have start: "is_MM_YYYY (in_StartDate d)"
    and endd: "\<not> invalidEndDate (in_StartDate d) (in_EndDate d)"
    by (auto simp: first_failure_subscription invalidMonth_def split: if_splits)
  show "ServiceName sub = TrimSpace (in_ServiceName d)" "Price sub = in_Price d"
    "UserID sub = in_UserID d"
    by (simp_all add: sub normalized_def)
  show "is_MM_YYYY (in_StartDate d)" by (rule start)
  show "StartDate sub = firstOfMonth (yearOf (in_StartDate d))
                           (Month_of (nat (monthOf (in_StartDate d))))"
    by (simp add: sub normalized_def canonicalMonth_def)
  show "day (StartDate sub) = 1" "nsec (StartDate sub) = 0"
    by (simp_all add: sub normalized_def canonicalMonth_def firstOfMonth_def)
  show "case EndDate sub of
            None \<Rightarrow> in_EndDate d = None \<or> in_EndDate d = Some []
          | Some end_date \<Rightarrow>
              (\<exists>raw. in_EndDate d = Some raw \<and> is_MM_YYYY raw
                 \<and> end_date = firstOfMonth (yearOf raw) (Month_of (nat (monthOf raw)))
                 \<and> day end_date = 1 \<and> nsec end_date = 0)"
    using endd
    by (auto simp: sub normalized_def canonicalEnd_def invalidEndDate_def invalidMonth_def
        canonicalMonth_def firstOfMonth_def split: option.splits if_splits)
next
  show "Before (firstOfMonth y m) (firstOfMonth y' m')
        \<longleftrightarrow> y < y' \<or> (y = y' \<and> Month_int m < Month_int m')"
    by (rule Before_firstOfMonth)
  show "After (firstOfMonth y m) (firstOfMonth y' m')
        \<longleftrightarrow> y' < y \<or> (y' = y \<and> Month_int m' < Month_int m)"
    by (simp add: After_def Before_firstOfMonth)
  show "firstOfMonth y m = firstOfMonth y' m' \<longleftrightarrow> y = y' \<and> m = m'"
    by (auto simp: firstOfMonth_def)
qed

theorem C10_witness:
  "fst (Service_Create uuid_36 stub create_ok (stubRepo_zero\<lparr>createID := 10\<rparr>)) = Inr created
   \<and> in_ServiceName create_ok = ''  Netflix  '' \<and> ServiceName created = ''Netflix''
   \<and> Price created = 999 \<and> UserID created = test_user
   \<and> StartDate created = \<lparr>year = 2024, month = January, day = 1, nsec = 0\<rparr>
   \<and> EndDate created = Some \<lparr>year = 2024, month = February, day = 1, nsec = 0\<rparr>
   \<and> Before (firstOfMonth 2023 December) (firstOfMonth 2024 January)
   \<and> \<not> Before (firstOfMonth 2024 January) (firstOfMonth 2024 January)"
proof -
  have ok: "fst (Service_Create uuid_36 stub create_ok (stubRepo_zero\<lparr>createID := 10\<rparr>))
      = Inr created"
    by (simp add: service_eval)
  from C10_created_subscription_is_canonical [where uuid_Parse = uuid_36 and repo = stub
      and d = create_ok and st = "stubRepo_zero\<lparr>createID := 10\<rparr>" and sub = created
      and y = 2023 and m = December and y' = 2024 and m' = January]
    C10_created_subscription_is_canonical [where uuid_Parse = uuid_36 and repo = stub
      and d = create_ok and st = "stubRepo_zero\<lparr>createID := 10\<rparr>" and sub = created
      and y = 2024 and m = January and y' = 2024 and m' = January] ok
  show ?thesis
    by (simp add: created_def create_ok_def firstOfMonth_def)
qed

end
